theory Spec2Isabelle
  imports Main "HOL-Library.Word" "HOL-Library.Char_ord" "HOL-Library.List_Lexorder"
    "HOL-Library.Multiset"
begin

unbundle bit_operations_syntax

section \<open>Python values\<close>

text \<open>
  The state manager handles the values that \<^verbatim>\<open>json.loads\<close> produces and
  \<^verbatim>\<open>json.dumps\<close> accepts: \<^verbatim>\<open>None\<close>, booleans, integers, strings, lists and
  dictionaries with string keys. A dictionary is an association list in insertion
  order, as Python keeps it; its keys are pairwise different (\<open>wf_json\<close>).
  Floating-point numbers are outside this value type, and a string is a sequence of
  code points below 256.
\<close>

datatype json =
    JNull
  | JBool bool
  | JInt int
  | JStr string
  | JList "json list"
  | JDict "(string \<times> json) list"

fun wf_json :: "json \<Rightarrow> bool" where
  "wf_json (JList xs) = list_all wf_json xs"
| "wf_json (JDict kvs) = (distinct (map fst kvs) \<and> list_all (\<lambda>kv. wf_json (snd kv)) kvs)"
| "wf_json _ = True"

text \<open>The exceptions that the modelled code can raise.\<close>

datatype error = TypeError | AttributeError | KeyError | OSError

text \<open>\<^verbatim>\<open>d.get(key)\<close> and \<^verbatim>\<open>d.get(key, default)\<close>; a value without a \<^verbatim>\<open>get\<close>
  method raises \<^verbatim>\<open>AttributeError\<close>.\<close>

fun py_get :: "json \<Rightarrow> string \<Rightarrow> json \<Rightarrow> error + json" where
  "py_get (JDict kvs) k d = Inr (case map_of kvs k of Some v \<Rightarrow> v | None \<Rightarrow> d)"
| "py_get _ k d = Inl AttributeError"

text \<open>Truth value of a Python object, as \<^verbatim>\<open>x or []\<close> and \<^verbatim>\<open>if not x\<close> test it.\<close>

fun py_truthy :: "json \<Rightarrow> bool" where
  "py_truthy JNull = False"
| "py_truthy (JBool b) = b"
| "py_truthy (JInt i) = (i \<noteq> 0)"
| "py_truthy (JStr s) = (s \<noteq> [])"
| "py_truthy (JList xs) = (xs \<noteq> [])"
| "py_truthy (JDict kvs) = (kvs \<noteq> [])"

text \<open>\<^verbatim>\<open>x or d\<close> where \<^verbatim>\<open>x\<close> is an optional result (\<^verbatim>\<open>None\<close> when absent).\<close>

definition py_or :: "json option \<Rightarrow> json \<Rightarrow> json" where
  "py_or x d = (case x of None \<Rightarrow> d | Some v \<Rightarrow> if py_truthy v then v else d)"

text \<open>\<^verbatim>\<open>for x in v\<close>: the elements of a list, the keys of a dictionary, the characters of
  a string; anything else is not iterable.\<close>

fun py_iter :: "json \<Rightarrow> error + json list" where
  "py_iter (JList xs) = Inr xs"
| "py_iter (JDict kvs) = Inr (map (\<lambda>kv. JStr (fst kv)) kvs)"
| "py_iter (JStr s) = Inr (map (\<lambda>c. JStr [c]) s)"
| "py_iter _ = Inl TypeError"

text \<open>\<^verbatim>\<open>len(v)\<close>.\<close>

fun py_len :: "json \<Rightarrow> error + nat" where
  "py_len (JList xs) = Inr (length xs)"
| "py_len (JDict kvs) = Inr (length kvs)"
| "py_len (JStr s) = Inr (length s)"
| "py_len _ = Inl TypeError"

text \<open>Python's \<^verbatim>\<open>==\<close>: booleans compare as the integers 0 and 1, lists compare element by
  element, dictionaries compare as maps.\<close>

fun py_eq :: "json \<Rightarrow> json \<Rightarrow> bool" where
  "py_eq JNull b = (b = JNull)"
| "py_eq (JBool x) b = (case b of JBool y \<Rightarrow> x = y | JInt j \<Rightarrow> (if x then 1 else 0) = j | _ \<Rightarrow> False)"
| "py_eq (JInt i) b = (case b of JBool y \<Rightarrow> i = (if y then 1 else 0) | JInt j \<Rightarrow> i = j | _ \<Rightarrow> False)"
| "py_eq (JStr s) b = (b = JStr s)"
| "py_eq (JList xs) b = (case b of JList ys \<Rightarrow> list_all2 py_eq xs ys | _ \<Rightarrow> False)"
| "py_eq (JDict kvs) b = (case b of
      JDict kvs' \<Rightarrow> length kvs = length kvs' \<and>
        list_all (\<lambda>kv. case map_of kvs' (fst kv) of None \<Rightarrow> False | Some v' \<Rightarrow> py_eq (snd kv) v') kvs
    | _ \<Rightarrow> False)"

text \<open>\<^verbatim>\<open>v < 0\<close>: defined on numbers only.\<close>

fun py_lt_zero :: "json \<Rightarrow> error + bool" where
  "py_lt_zero (JInt i) = Inr (i < 0)"
| "py_lt_zero (JBool b) = Inr False"
| "py_lt_zero _ = Inl TypeError"

section \<open>Canonical serialisation: \<^verbatim>\<open>json.dumps(v, sort_keys=True)\<close>\<close>

definition hexdigit :: "nat \<Rightarrow> char" where
  "hexdigit n = ''0123456789abcdef'' ! (n mod 16)"

fun str_nat :: "nat \<Rightarrow> string" where
  "str_nat n = (if n < 10 then [hexdigit n] else str_nat (n div 10) @ [hexdigit (n mod 10)])"

declare str_nat.simps [simp del]

definition str_int :: "int \<Rightarrow> string" where
  "str_int i = (if i < 0 then CHR ''-'' # str_nat (nat (- i)) else str_nat (nat i))"

text \<open>The escapes of \<^verbatim>\<open>json.encoder.py_encode_basestring_ascii\<close>: the quote and the
  backslash, the short forms of five control characters, and \<^verbatim>\<open>\u00xx\<close> for every
  other character outside the printable range 0x20..0x7e.\<close>

definition escape_char :: "char \<Rightarrow> string" where
  "escape_char c =
    (if c = CHR 0x22 then [CHR 0x5C, CHR 0x22]
     else if c = CHR 0x5C then [CHR 0x5C, CHR 0x5C]
     else if c = CHR 0x0A then [CHR 0x5C, CHR ''n'']
     else if c = CHR 0x0D then [CHR 0x5C, CHR ''r'']
     else if c = CHR 0x09 then [CHR 0x5C, CHR ''t'']
     else if c = CHR 0x08 then [CHR 0x5C, CHR ''b'']
     else if c = CHR 0x0C then [CHR 0x5C, CHR ''f'']
     else if (of_char c :: nat) < 0x20 \<or> 0x7E < (of_char c :: nat)
       then [CHR 0x5C, CHR ''u'', CHR ''0'', CHR ''0'',
             hexdigit (of_char c div 16), hexdigit (of_char c mod 16)]
     else [c])"

definition encode_basestring_ascii :: "string \<Rightarrow> string" where
  "encode_basestring_ascii s = CHR 0x22 # concat (map escape_char s) @ [CHR 0x22]"

text \<open>\<^verbatim>\<open>sep.join(parts)\<close>.\<close>

fun join :: "string \<Rightarrow> string list \<Rightarrow> string" where
  "join sep [] = []"
| "join sep [x] = x"
| "join sep (x # y # ys) = x @ sep @ join sep (y # ys)"

function json_dumps :: "json \<Rightarrow> string" where
  "json_dumps JNull = ''null''"
| "json_dumps (JBool b) = (if b then ''true'' else ''false'')"
| "json_dumps (JInt i) = str_int i"
| "json_dumps (JStr s) = encode_basestring_ascii s"
| "json_dumps (JList xs) = ''['' @ join '', '' (map json_dumps xs) @ '']''"
| "json_dumps (JDict kvs) =
     ''{'' @ join '', ''
        (map (\<lambda>kv. encode_basestring_ascii (fst kv) @ '': '' @ json_dumps (snd kv))
             (sort_key fst kvs)) @ ''}''"
  by pat_completeness auto
termination
proof (relation "measure size")
  show "wf (measure size)" by simp
next
  fix xs :: "json list" and x
  assume "x \<in> set xs"
  then show "(x, JList xs) \<in> measure size"
    by (induction xs) auto
next
  fix kvs :: "(string \<times> json) list" and kv
  assume "kv \<in> set (sort_key fst kvs)"
  then have "kv \<in> set kvs" by (simp add: set_sort)
  then show "(snd kv, JDict kvs) \<in> measure size"
    by (induction kvs) auto
qed

section \<open>The digest: \<^verbatim>\<open>hashlib.md5(data).hexdigest()\<close>\<close>

text \<open>MD5 as RFC 1321 defines it, on 32-bit words.\<close>

type_synonym u32 = "32 word"

definition rotl32 :: "u32 \<Rightarrow> nat \<Rightarrow> u32" where
  "rotl32 x n = push_bit n x OR drop_bit (32 - n) x"

definition md5_K :: "u32 list" where
  "md5_K =
   [0xd76aa478, 0xe8c7b756, 0x242070db, 0xc1bdceee, 0xf57c0faf, 0x4787c62a, 0xa8304613, 0xfd469501,
    0x698098d8, 0x8b44f7af, 0xffff5bb1, 0x895cd7be, 0x6b901122, 0xfd987193, 0xa679438e, 0x49b40821,
    0xf61e2562, 0xc040b340, 0x265e5a51, 0xe9b6c7aa, 0xd62f105d, 0x02441453, 0xd8a1e681, 0xe7d3fbc8,
    0x21e1cde6, 0xc33707d6, 0xf4d50d87, 0x455a14ed, 0xa9e3e905, 0xfcefa3f8, 0x676f02d9, 0x8d2a4c8a,
    0xfffa3942, 0x8771f681, 0x6d9d6122, 0xfde5380c, 0xa4beea44, 0x4bdecfa9, 0xf6bb4b60, 0xbebfbc70,
    0x289b7ec6, 0xeaa127fa, 0xd4ef3085, 0x04881d05, 0xd9d4d039, 0xe6db99e5, 0x1fa27cf8, 0xc4ac5665,
    0xf4292244, 0x432aff97, 0xab9423a7, 0xfc93a039, 0x655b59c3, 0x8f0ccc92, 0xffeff47d, 0x85845dd1,
    0x6fa87e4f, 0xfe2ce6e0, 0xa3014314, 0x4e0811a1, 0xf7537e82, 0xbd3af235, 0x2ad7d2bb, 0xeb86d391]"

definition md5_S :: "nat list" where
  "md5_S =
   [7, 12, 17, 22, 7, 12, 17, 22, 7, 12, 17, 22, 7, 12, 17, 22,
    5, 9, 14, 20, 5, 9, 14, 20, 5, 9, 14, 20, 5, 9, 14, 20,
    4, 11, 16, 23, 4, 11, 16, 23, 4, 11, 16, 23, 4, 11, 16, 23,
    6, 10, 15, 21, 6, 10, 15, 21, 6, 10, 15, 21, 6, 10, 15, 21]"

type_synonym md5_state = "u32 \<times> u32 \<times> u32 \<times> u32"

definition md5_step :: "u32 list \<Rightarrow> md5_state \<Rightarrow> nat \<Rightarrow> md5_state" where
  "md5_step m st i =
    (case st of (a, b, c, d) \<Rightarrow>
      let f = (if i < 16 then (b AND c) OR (NOT b AND d)
               else if i < 32 then (d AND b) OR (NOT d AND c)
               else if i < 48 then b XOR c XOR d
               else c XOR (b OR NOT d));
          g = (if i < 16 then i
               else if i < 32 then (5 * i + 1) mod 16
               else if i < 48 then (3 * i + 5) mod 16
               else (7 * i) mod 16);
          f' = f + a + md5_K ! i + m ! g
      in (d, b + rotl32 f' (md5_S ! i), b, c))"

definition md5_block :: "md5_state \<Rightarrow> u32 list \<Rightarrow> md5_state" where
  "md5_block st m =
    (case st of (a0, b0, c0, d0) \<Rightarrow>
      case foldl (md5_step m) st [0..<64] of (a, b, c, d) \<Rightarrow>
        (a0 + a, b0 + b, c0 + c, d0 + d))"

text \<open>Padding: a 1 bit, zeros up to 56 modulo 64 bytes, then the bit length as a
  little-endian 64-bit number.\<close>

type_synonym byte = "8 word"

definition le_bytes :: "nat \<Rightarrow> 'a::len word \<Rightarrow> byte list" where
  "le_bytes n x = map (\<lambda>i. ucast (drop_bit (8 * i) x)) [0..<n]"

definition md5_pad :: "byte list \<Rightarrow> byte list" where
  "md5_pad bs =
    bs @ [0x80] @ replicate ((119 - length bs mod 64) mod 64) 0
       @ le_bytes 8 (of_nat (8 * length bs) :: 64 word)"

fun le_words :: "byte list \<Rightarrow> u32 list" where
  "le_words (b0 # b1 # b2 # b3 # bs) =
     (ucast b0 OR push_bit 8 (ucast b1) OR push_bit 16 (ucast b2) OR push_bit 24 (ucast b3))
       # le_words bs"
| "le_words _ = []"

fun chunks :: "nat \<Rightarrow> 'a list \<Rightarrow> 'a list list" where
  "chunks n [] = []"
| "chunks n (x # xs) =
     (if n = 0 then [] else take n (x # xs) # chunks n (drop n (x # xs)))"

definition md5_digest :: "byte list \<Rightarrow> byte list" where
  "md5_digest bs =
    (case foldl md5_block (0x67452301, 0xefcdab89, 0x98badcfe, 0x10325476)
            (chunks 16 (le_words (md5_pad bs))) of
       (a, b, c, d) \<Rightarrow> concat (map (le_bytes 4) [a, b, c, d]))"

definition hexdigest :: "byte list \<Rightarrow> string" where
  "hexdigest bs = concat (map (\<lambda>b. [hexdigit (unat b div 16), hexdigit (unat b mod 16)]) bs)"

text \<open>\<^verbatim>\<open>str.encode()\<close>: the serialisation is ASCII, so each character is one byte.\<close>

definition str_encode :: "string \<Rightarrow> byte list" where
  "str_encode s = map of_char s"

definition md5_hexdigest :: "string \<Rightarrow> string" where
  "md5_hexdigest s = hexdigest (md5_digest (str_encode s))"

section \<open>The snapshot and its checksums\<close>

text \<open>\<^verbatim>\<open>_generate_state_checksum\<close>.\<close>

definition generate_state_checksum :: "json \<Rightarrow> string" where
  "generate_state_checksum state_data = md5_hexdigest (json_dumps state_data)"

text \<open>The dataclass \<^verbatim>\<open>QuantumState\<close>. Python does not enforce the annotations, and
  \<^verbatim>\<open>load_quantum_state\<close> fills the fields with whatever the file holds, so every
  field is a value.\<close>

record QuantumState =
  timestamp :: json
  session_id :: json
  monitor_layouts :: json
  workspace_states :: json
  window_states :: json
  application_contexts :: json
  terminal_sessions :: json
  browser_sessions :: json
  development_environments :: json
  system_state :: json
  validation_checksums :: json

text \<open>\<^verbatim>\<open>dataclasses.asdict(state)\<close>: the fields in declaration order.\<close>

definition asdict :: "QuantumState \<Rightarrow> (string \<times> json) list" where
  "asdict state =
    [(''timestamp'', timestamp state),
     (''session_id'', session_id state),
     (''monitor_layouts'', monitor_layouts state),
     (''workspace_states'', workspace_states state),
     (''window_states'', window_states state),
     (''application_contexts'', application_contexts state),
     (''terminal_sessions'', terminal_sessions state),
     (''browser_sessions'', browser_sessions state),
     (''development_environments'', development_environments state),
     (''system_state'', system_state state),
     (''validation_checksums'', validation_checksums state)]"

text \<open>\<^verbatim>\<open>d.pop(key, None)\<close>, keeping the dictionary.\<close>

definition dict_pop :: "string \<Rightarrow> (string \<times> 'a) list \<Rightarrow> (string \<times> 'a) list" where
  "dict_pop k kvs = filter (\<lambda>kv. fst kv \<noteq> k) kvs"

definition components :: "QuantumState \<Rightarrow> (string \<times> json) list" where
  "components state =
    [(''monitor_layouts'', monitor_layouts state),
     (''workspace_states'', workspace_states state),
     (''window_states'', window_states state),
     (''application_contexts'', application_contexts state),
     (''terminal_sessions'', terminal_sessions state),
     (''browser_sessions'', browser_sessions state),
     (''development_environments'', development_environments state),
     (''system_state'', system_state state)]"

text \<open>\<^verbatim>\<open>generate_validation_checksums\<close>: a dictionary from component name to digest, the
  eight components first, then \<^verbatim>\<open>"overall"\<close> over the whole snapshot without its
  checksum field.\<close>

definition generate_validation_checksums :: "QuantumState \<Rightarrow> (string \<times> string) list" where
  "generate_validation_checksums state =
    map (\<lambda>cd. (fst cd, generate_state_checksum (snd cd))) (components state)
    @ [(''overall'',
        generate_state_checksum (JDict (dict_pop ''validation_checksums'' (asdict state))))]"

text \<open>A dictionary of strings as the value stored in the field \<^verbatim>\<open>validation_checksums\<close>.\<close>

definition checksums_json :: "(string \<times> string) list \<Rightarrow> json" where
  "checksums_json cs = JDict (map (\<lambda>cd. (fst cd, JStr (snd cd))) cs)"

text \<open>\<^verbatim>\<open>checksums.get(component)\<close>: a string or \<^verbatim>\<open>None\<close>.\<close>

definition get_checksum :: "(string \<times> string) list \<Rightarrow> string \<Rightarrow> json" where
  "get_checksum cs c = (case map_of cs c of None \<Rightarrow> JNull | Some d \<Rightarrow> JStr d)"

text \<open>The loop of \<^verbatim>\<open>_validate_state_checksums\<close> over the stored items: it leaves with
  \<^verbatim>\<open>False\<close> at the first component, other than \<^verbatim>\<open>"overall"\<close>, whose recomputed
  digest is not equal to the stored one.\<close>

fun components_match :: "(string \<times> string) list \<Rightarrow> (string \<times> json) list \<Rightarrow> bool" where
  "components_match current [] = True"
| "components_match current ((component, expected_checksum) # rest) =
     (if component = ''overall'' then components_match current rest
      else if py_eq (get_checksum current component) expected_checksum
        then components_match current rest
      else False)"

text \<open>\<^verbatim>\<open>_validate_state_checksums\<close>. A checksum field that is not a dictionary has no
  \<^verbatim>\<open>items\<close>; the exception is caught and the result is \<^verbatim>\<open>False\<close>.\<close>

definition validate_state_checksums :: "QuantumState \<Rightarrow> bool" where
  "validate_state_checksums state =
    (let current_checksums = generate_validation_checksums state in
     case validation_checksums state of
       JDict stored \<Rightarrow>
         if components_match current_checksums stored then
           py_eq (case map_of stored ''overall'' of None \<Rightarrow> JNull | Some v \<Rightarrow> v)
                 (get_checksum current_checksums ''overall'')
         else False
     | _ \<Rightarrow> False)"

section \<open>Exceptions and loops\<close>

text \<open>An exception leaves the computation at the point where it is raised.\<close>

definition bind_err :: "error + 'a \<Rightarrow> ('a \<Rightarrow> error + 'b) \<Rightarrow> error + 'b" where
  "bind_err m f = (case m of Inl e \<Rightarrow> Inl e | Inr x \<Rightarrow> f x)"

text \<open>A \<^verbatim>\<open>for\<close> loop that appends one record per element; the first exception ends it.\<close>

fun map_err :: "('a \<Rightarrow> error + 'b) \<Rightarrow> 'a list \<Rightarrow> error + 'b list" where
  "map_err f [] = Inr []"
| "map_err f (x # xs) =
     bind_err (f x) (\<lambda>y. bind_err (map_err f xs) (\<lambda>ys. Inr (y # ys)))"

text \<open>A list comprehension with a condition that can raise.\<close>

fun filter_err :: "('a \<Rightarrow> error + bool) \<Rightarrow> 'a list \<Rightarrow> error + 'a list" where
  "filter_err p [] = Inr []"
| "filter_err p (x # xs) =
     bind_err (p x) (\<lambda>b. bind_err (filter_err p xs) (\<lambda>ys. Inr (if b then x # ys else ys)))"

text \<open>\<^verbatim>\<open>d.get(key, default)\<close> on the items of a dictionary.\<close>

definition dict_get :: "(string \<times> json) list \<Rightarrow> string \<Rightarrow> json \<Rightarrow> json" where
  "dict_get kvs k d = (case map_of kvs k of Some v \<Rightarrow> v | None \<Rightarrow> d)"

section \<open>Component capturers\<close>

text \<open>
  \<^verbatim>\<open>_run_hyprctl_command\<close> returns the decoded output of the compositor or \<^verbatim>\<open>None\<close>.
  Each capturer below takes the results of its queries as arguments of type
  \<open>json option\<close>, so it is a function of what the compositor answered.

  \<^verbatim>\<open>capture_monitor_layouts\<close>. The default of \<^verbatim>\<open>scale\<close> is the float \<^verbatim>\<open>1.0\<close>, which has
  no counterpart in the value type; it is the argument \<open>scale_default\<close>.
\<close>

fun monitor_layout :: "json \<Rightarrow> json \<Rightarrow> error + json" where
  "monitor_layout scale_default (JDict monitor) = Inr (JDict
     [(''id'', dict_get monitor ''id'' JNull),
      (''name'', dict_get monitor ''name'' JNull),
      (''description'', dict_get monitor ''description'' JNull),
      (''width'', dict_get monitor ''width'' JNull),
      (''height'', dict_get monitor ''height'' JNull),
      (''refreshRate'', dict_get monitor ''refreshRate'' JNull),
      (''x'', dict_get monitor ''x'' JNull),
      (''y'', dict_get monitor ''y'' JNull),
      (''activeWorkspace'', dict_get monitor ''activeWorkspace'' (JDict [])),
      (''reserved'', dict_get monitor ''reserved'' (JList [])),
      (''scale'', dict_get monitor ''scale'' scale_default),
      (''transform'', dict_get monitor ''transform'' (JInt 0)),
      (''focused'', dict_get monitor ''focused'' (JBool False)),
      (''dpmsStatus'', dict_get monitor ''dpmsStatus'' (JBool True))])"
| "monitor_layout scale_default _ = Inl AttributeError"

definition capture_monitor_layouts :: "json \<Rightarrow> json option \<Rightarrow> error + json list" where
  "capture_monitor_layouts scale_default monitors_result =
    bind_err (py_iter (py_or monitors_result (JList [])))
      (map_err (monitor_layout scale_default))"

text \<open>\<^verbatim>\<open>capture_workspace_states\<close>. The condition of the comprehension,
  \<^verbatim>\<open>client.get("workspace", {}).get("id") == workspace_id\<close>:\<close>

definition client_on_workspace :: "json \<Rightarrow> json \<Rightarrow> error + bool" where
  "client_on_workspace workspace_id client =
    bind_err (py_get client ''workspace'' (JDict []))
      (\<lambda>w. bind_err (py_get w ''id'' JNull) (\<lambda>i. Inr (py_eq i workspace_id)))"

text \<open>The lightweight reference to a client that a workspace record embeds.\<close>

fun client_ref :: "json \<Rightarrow> error + json" where
  "client_ref (JDict client) = Inr (JDict
     [(''address'', dict_get client ''address'' JNull),
      (''class'', dict_get client ''class'' JNull),
      (''title'', dict_get client ''title'' JNull),
      (''initialClass'', dict_get client ''initialClass'' JNull),
      (''initialTitle'', dict_get client ''initialTitle'' JNull)])"
| "client_ref _ = Inl AttributeError"

text \<open>The body of the loop for one workspace, in the order Python evaluates it: the id,
  the comprehension over the clients, the entries of the record up to the embedded
  clients, and last \<^verbatim>\<open>workspace_id < 0\<close>.\<close>

definition workspace_state :: "json \<Rightarrow> json \<Rightarrow> error + json" where
  "workspace_state clients workspace =
    bind_err (py_get workspace ''id'' JNull) (\<lambda>workspace_id.
    bind_err (py_iter clients) (\<lambda>cs.
    bind_err (filter_err (client_on_workspace workspace_id) cs) (\<lambda>workspace_clients.
    bind_err (py_get workspace ''name'' JNull) (\<lambda>name.
    bind_err (py_get workspace ''monitor'' JNull) (\<lambda>monitor.
    bind_err (py_get workspace ''monitorID'' JNull) (\<lambda>monitorID.
    bind_err (py_get workspace ''windows'' (JInt 0)) (\<lambda>windows.
    bind_err (py_get workspace ''hasfullscreen'' (JBool False)) (\<lambda>hasfullscreen.
    bind_err (py_get workspace ''lastwindow'' (JStr [])) (\<lambda>lastwindow.
    bind_err (py_get workspace ''lastwindowtitle'' (JStr [])) (\<lambda>lastwindowtitle.
    bind_err (map_err client_ref workspace_clients) (\<lambda>refs.
    bind_err (py_get workspace ''persistent'' (JBool False)) (\<lambda>persistent.
    bind_err (py_lt_zero workspace_id) (\<lambda>special.
      Inr (JDict
        [(''id'', workspace_id),
         (''name'', name),
         (''monitor'', monitor),
         (''monitorID'', monitorID),
         (''windows'', windows),
         (''hasfullscreen'', hasfullscreen),
         (''lastwindow'', lastwindow),
         (''lastwindowtitle'', lastwindowtitle),
         (''clients'', JList refs),
         (''persistent'', persistent),
         (''specialWorkspace'', JBool special)]))))))))))))))"

definition capture_workspace_states :: "json option \<Rightarrow> json option \<Rightarrow> error + json list" where
  "capture_workspace_states workspaces_result clients_result =
    (let workspaces = py_or workspaces_result (JList []);
         clients = py_or clients_result (JList [])
     in bind_err (py_iter workspaces) (map_err (workspace_state clients)))"

text \<open>\<^verbatim>\<open>capture_window_states\<close>. The last entry of a record compares the client's address
  with the address of the active window.\<close>

definition window_state :: "json \<Rightarrow> json \<Rightarrow> error + json" where
  "window_state active_window client =
    (case client of
       JDict c \<Rightarrow>
         bind_err (py_get active_window ''address'' JNull) (\<lambda>active_address.
           Inr (JDict
             [(''address'', dict_get c ''address'' JNull),
              (''class'', dict_get c ''class'' JNull),
              (''title'', dict_get c ''title'' JNull),
              (''initialClass'', dict_get c ''initialClass'' JNull),
              (''initialTitle'', dict_get c ''initialTitle'' JNull),
              (''pid'', dict_get c ''pid'' JNull),
              (''xwayland'', dict_get c ''xwayland'' (JBool False)),
              (''pinned'', dict_get c ''pinned'' (JBool False)),
              (''fullscreen'', dict_get c ''fullscreen'' (JBool False)),
              (''fullscreenMode'', dict_get c ''fullscreenMode'' (JInt 0)),
              (''fakeFullscreen'', dict_get c ''fakeFullscreen'' (JBool False)),
              (''floating'', dict_get c ''floating'' (JBool False)),
              (''monitor'', dict_get c ''monitor'' JNull),
              (''workspace'', dict_get c ''workspace'' (JDict [])),
              (''at'', dict_get c ''at'' (JList [JInt 0, JInt 0])),
              (''size'', dict_get c ''size'' (JList [JInt 0, JInt 0])),
              (''focusHistoryID'', dict_get c ''focusHistoryID'' (JInt 0)),
              (''active'', JBool (py_eq (dict_get c ''address'' JNull) active_address))]))
     | _ \<Rightarrow> Inl AttributeError)"

definition capture_window_states :: "json option \<Rightarrow> json option \<Rightarrow> error + json list" where
  "capture_window_states clients_result activewindow_result =
    (let clients = py_or clients_result (JList []);
         active_window = py_or activewindow_result (JDict [])
     in bind_err (py_iter clients) (map_err (window_state active_window)))"

section \<open>Compatibility and migration\<close>

text \<open>
  \<^verbatim>\<open>validate_state_compatibility\<close>. The live state is what the compositor answers to
  the three queries, and the outcome of \<^verbatim>\<open>capture_system_state\<close>, which reads the
  machine through \<^verbatim>\<open>psutil\<close> and either returns a record or raises. Every exception
  inside the \<^verbatim>\<open>try\<close> block gives \<^verbatim>\<open>False\<close>.
\<close>

definition validate_state_compatibility ::
  "json \<Rightarrow> json option \<Rightarrow> json option \<Rightarrow> json option \<Rightarrow> error + json \<Rightarrow> QuantumState \<Rightarrow> bool"
where
  "validate_state_compatibility scale_default monitors_result workspaces_result clients_result
      system_result state =
    (case
       bind_err (capture_monitor_layouts scale_default monitors_result) (\<lambda>current_monitors.
       bind_err (py_len (monitor_layouts state)) (\<lambda>stored_monitors.
         if length current_monitors \<noteq> stored_monitors then Inr False
         else
           bind_err (capture_workspace_states workspaces_result clients_result)
             (\<lambda>current_workspaces.
           bind_err (py_len (workspace_states state)) (\<lambda>stored_workspaces.
             if length current_workspaces < stored_workspaces then Inr False
             else bind_err system_result (\<lambda>current_system. Inr True)))))
     of Inl e \<Rightarrow> False | Inr b \<Rightarrow> b)"

text \<open>
  \<^verbatim>\<open>migrate_legacy_state\<close>. \<open>legacy_file\<close> is the outcome of opening and decoding the
  file, \<open>now_iso\<close> is \<^verbatim>\<open>datetime.now().isoformat()\<close> and \<open>now_unix\<close> is
  \<^verbatim>\<open>int(time.time())\<close>. Every exception is raised again.
\<close>

definition migrate_legacy_state :: "error + json \<Rightarrow> string \<Rightarrow> int \<Rightarrow> error + QuantumState" where
  "migrate_legacy_state legacy_file now_iso now_unix =
    bind_err legacy_file (\<lambda>legacy_data.
    bind_err (py_get legacy_data ''monitors'' (JList [])) (\<lambda>monitors.
    bind_err (py_get legacy_data ''workspaces'' (JList [])) (\<lambda>workspaces.
    bind_err (py_get legacy_data ''windows'' (JList [])) (\<lambda>windows.
    bind_err (py_get legacy_data ''applications'' (JList [])) (\<lambda>applications.
    bind_err (py_get legacy_data ''terminals'' (JList [])) (\<lambda>terminals.
    bind_err (py_get legacy_data ''browsers'' (JList [])) (\<lambda>browsers.
    bind_err (py_get legacy_data ''environments'' (JList [])) (\<lambda>environments.
    bind_err (py_get legacy_data ''system'' (JDict [])) (\<lambda>system.
      let quantum_state =
        \<lparr>timestamp = JStr now_iso,
         session_id = JStr (''migrated_'' @ str_int now_unix),
         monitor_layouts = monitors,
         workspace_states = workspaces,
         window_states = windows,
         application_contexts = applications,
         terminal_sessions = terminals,
         browser_sessions = browsers,
         development_environments = environments,
         system_state = system,
         validation_checksums = JDict []\<rparr>
      in Inr (quantum_state\<lparr>validation_checksums :=
                checksums_json (generate_validation_checksums quantum_state)\<rparr>))))))))))"

section \<open>Development environments\<close>

text \<open>\<^verbatim>\<open>os.path.basename\<close>: what follows the last slash.\<close>

definition basename :: "string \<Rightarrow> string" where
  "basename p = rev (takeWhile (\<lambda>c. c \<noteq> CHR ''/'') (rev p))"

text \<open>\<^verbatim>\<open>_detect_development_environments\<close> on a dictionary of environment variables.\<close>

definition detect_development_environments :: "(string \<rightharpoonup> string) \<Rightarrow> json list" where
  "detect_development_environments env_vars =
    (case env_vars ''CONDA_DEFAULT_ENV'' of
       Some v \<Rightarrow> [JDict [(''type'', JStr ''conda''), (''name'', JStr v), (''active'', JBool True)]]
     | None \<Rightarrow> [])
    @ (case env_vars ''VIRTUAL_ENV'' of
       Some v \<Rightarrow> [JDict [(''type'', JStr ''venv''), (''name'', JStr (basename v)),
                         (''path'', JStr v), (''active'', JBool True)]]
     | None \<Rightarrow> [])
    @ (case env_vars ''PYENV_VERSION'' of
       Some v \<Rightarrow> [JDict [(''type'', JStr ''pyenv''), (''name'', JStr v), (''active'', JBool True)]]
     | None \<Rightarrow> [])
    @ (case env_vars ''NODE_ENV'' of
       Some v \<Rightarrow> [JDict [(''type'', JStr ''node''), (''environment'', JStr v),
                         (''active'', JBool True)]]
     | None \<Rightarrow> [])"

section \<open>Backups\<close>

text \<open>
  The backup directory is the list of its entries, a file name with its creation time.
  The list keeps the entries in the order in which they were first written; that order
  is not what the program sees. \<^verbatim>\<open>os.listdir\<close> reports the entries in an arbitrary
  order: \<open>listdir\<close> is the function that puts a directory into the order of the report,
  some permutation of its entries. The clock counts nanoseconds;
  \<^verbatim>\<open>int(time.time())\<close> is the number of whole seconds. The file system does what it is
  asked: no call fails and no other process touches the directory.
\<close>

type_synonym directory = "(string \<times> nat) list"

definition unix_seconds :: "nat \<Rightarrow> int" where
  "unix_seconds now = int (now div 1000000000)"

text \<open>\<^verbatim>\<open>shutil.copy2\<close> to a path in the directory: a new entry, or a new content and
  time for the entry of that name.\<close>

fun write_file :: "directory \<Rightarrow> string \<Rightarrow> nat \<Rightarrow> directory" where
  "write_file [] name now = [(name, now)]"
| "write_file ((n, c) # rest) name now =
     (if n = name then (n, now) # rest else (n, c) # write_file rest name now)"

definition startswith :: "string \<Rightarrow> string \<Rightarrow> bool" where
  "startswith s prefix = (take (length prefix) s = prefix)"

text \<open>\<^verbatim>\<open>_cleanup_old_backups\<close>: the backups among the reported entries, sorted by creation
  time, oldest first, and the first \<^verbatim>\<open>len(backup_files) - max_backups\<close> of them removed
  when there are more than \<^verbatim>\<open>max_backups\<close>.\<close>

definition cleanup_old_backups :: "(directory \<Rightarrow> directory) \<Rightarrow> int \<Rightarrow> directory \<Rightarrow> directory" where
  "cleanup_old_backups listdir max_backups dir =
    (let backup_files =
           sort_key snd (filter (\<lambda>f. startswith (fst f) ''backup_'') (listdir dir))
     in if int (length backup_files) > max_backups then
          let files_to_remove = take (nat (int (length backup_files) - max_backups)) backup_files
          in filter (\<lambda>f. fst f \<notin> fst ` set files_to_remove) dir
        else dir)"

definition backup_name :: "string \<Rightarrow> nat \<Rightarrow> string" where
  "backup_name state_path now =
     ''backup_'' @ basename state_path @ ''_'' @ str_int (unix_seconds now)"

text \<open>\<^verbatim>\<open>_create_backup\<close>.\<close>

definition create_backup ::
  "(directory \<Rightarrow> directory) \<Rightarrow> int \<Rightarrow> directory \<Rightarrow> string \<Rightarrow> nat \<Rightarrow> directory" where
  "create_backup listdir max_backups dir state_path now =
     cleanup_old_backups listdir max_backups (write_file dir (backup_name state_path now) now)"

text \<open>A sequence of saves, each of a state file at a time; what \<^verbatim>\<open>save_quantum_state\<close>
  does to the backup directory is \<^verbatim>\<open>_create_backup\<close>.\<close>

definition save_all ::
  "(directory \<Rightarrow> directory) \<Rightarrow> int \<Rightarrow> directory \<Rightarrow> (string \<times> nat) list \<Rightarrow> directory" where
  "save_all listdir max_backups dir saves =
     foldl (\<lambda>d save. create_backup listdir max_backups d (fst save) (snd save)) dir saves"

section \<open>The optimisation pass on the heap\<close>

text \<open>
  The optimisation pass copies dictionaries with \<^verbatim>\<open>dict.copy\<close> and then assigns into
  nested dictionaries, so what it does to its argument depends on which objects are
  shared. Lists and dictionaries live in a heap, addressed by their position; a new
  object is put at the end. The other values are immediate.
\<close>

type_synonym addr = nat

datatype pyval = VNone | VBool bool | VInt int | VStr string | VRef addr

datatype pyobj = OList "pyval list" | ODict "(string \<times> pyval) list"

type_synonym heap = "pyobj list"

definition alloc :: "heap \<Rightarrow> pyobj \<Rightarrow> heap \<times> pyval" where
  "alloc h obj = (h @ [obj], VRef (length h))"

text \<open>The value that a heap holds below a reference, read with a bound on the depth.\<close>

fun heap_read :: "nat \<Rightarrow> heap \<Rightarrow> pyval \<Rightarrow> json option" where
  "heap_read fuel h VNone = Some JNull"
| "heap_read fuel h (VBool b) = Some (JBool b)"
| "heap_read fuel h (VInt i) = Some (JInt i)"
| "heap_read fuel h (VStr s) = Some (JStr s)"
| "heap_read 0 h (VRef a) = None"
| "heap_read (Suc fuel) h (VRef a) =
     (if a < length h then
        (case h ! a of
           OList vs \<Rightarrow> map_option JList (those (map (heap_read fuel h) vs))
         | ODict kvs \<Rightarrow>
             map_option JDict
               (those (map (\<lambda>kv. map_option (Pair (fst kv)) (heap_read fuel h (snd kv))) kvs)))
      else None)"

text \<open>The items of the dictionary, or the elements of the list, that a value refers to:
  the tests \<^verbatim>\<open>isinstance(v, dict)\<close> and \<^verbatim>\<open>isinstance(v, list)\<close>.\<close>

definition dict_items :: "heap \<Rightarrow> pyval \<Rightarrow> (string \<times> pyval) list option" where
  "dict_items h v =
    (case v of
       VRef a \<Rightarrow> (if a < length h then (case h ! a of ODict items \<Rightarrow> Some items | OList _ \<Rightarrow> None)
                  else None)
     | _ \<Rightarrow> None)"

definition list_elems :: "heap \<Rightarrow> pyval \<Rightarrow> pyval list option" where
  "list_elems h v =
    (case v of
       VRef a \<Rightarrow> (if a < length h then (case h ! a of OList vs \<Rightarrow> Some vs | ODict _ \<Rightarrow> None)
                  else None)
     | _ \<Rightarrow> None)"

text \<open>\<^verbatim>\<open>v.copy()\<close>: a new object with the same items; the items themselves are shared.\<close>

definition copy_val :: "heap \<Rightarrow> pyval \<Rightarrow> error + heap \<times> pyval" where
  "copy_val h v =
    (case v of
       VRef a \<Rightarrow> (if a < length h then Inr (alloc h (h ! a)) else Inl KeyError)
     | _ \<Rightarrow> Inl AttributeError)"

definition endswith :: "string \<Rightarrow> string \<Rightarrow> bool" where
  "endswith s suffix = (length suffix \<le> length s \<and> drop (length s - length suffix) s = suffix)"

text \<open>\<^verbatim>\<open>needle in s\<close> for strings.\<close>

definition str_contains :: "string \<Rightarrow> string \<Rightarrow> bool" where
  "str_contains s needle =
     list_ex (\<lambda>i. take (length needle) (drop i s) = needle) [0..<Suc (length s)]"

text \<open>\<^verbatim>\<open>key in v\<close> for a string \<^verbatim>\<open>key\<close>: a key of a dictionary, an element of a list, a
  part of a string; other values are not containers.\<close>

definition key_in :: "heap \<Rightarrow> string \<Rightarrow> pyval \<Rightarrow> error + bool" where
  "key_in h key v =
    (case v of
       VRef a \<Rightarrow>
         (if a < length h then
            (case h ! a of
               ODict items \<Rightarrow> Inr (key \<in> fst ` set items)
             | OList vs \<Rightarrow> Inr (VStr key \<in> set vs))
          else Inl KeyError)
     | VStr s \<Rightarrow> Inr (str_contains s key)
     | _ \<Rightarrow> Inl TypeError)"

text \<open>\<^verbatim>\<open>v[key]\<close> for a string \<^verbatim>\<open>key\<close>.\<close>

definition subscript :: "heap \<Rightarrow> pyval \<Rightarrow> string \<Rightarrow> error + pyval" where
  "subscript h v key =
    (case dict_items h v of
       Some items \<Rightarrow> (case map_of items key of Some x \<Rightarrow> Inr x | None \<Rightarrow> Inl KeyError)
     | None \<Rightarrow> Inl TypeError)"

text \<open>\<^verbatim>\<open>d[key] = x\<close> on the items of a dictionary, and \<^verbatim>\<open>v[key] = x\<close> in the heap: the
  object at the address of \<^verbatim>\<open>v\<close> changes, for every holder of that address.\<close>

fun dict_set :: "(string \<times> 'a) list \<Rightarrow> string \<Rightarrow> 'a \<Rightarrow> (string \<times> 'a) list" where
  "dict_set [] k v = [(k, v)]"
| "dict_set ((k', v') # rest) k v =
     (if k' = k then (k', v) # rest else (k', v') # dict_set rest k v)"

definition assign :: "heap \<Rightarrow> pyval \<Rightarrow> string \<Rightarrow> pyval \<Rightarrow> error + heap" where
  "assign h v key x =
    (case v of
       VRef a \<Rightarrow>
         (case dict_items h v of
            Some items \<Rightarrow> Inr (h[a := ODict (dict_set items key x)])
          | None \<Rightarrow> Inl TypeError)
     | _ \<Rightarrow> Inl TypeError)"

text \<open>\<^verbatim>\<open>os.path.basename(f)\<close> on a value: a type error unless it is a string.\<close>

fun basename_val :: "pyval \<Rightarrow> error + pyval" where
  "basename_val (VStr s) = Inr (VStr (basename s))"
| "basename_val _ = Inl TypeError"

text \<open>The inner loop of \<^verbatim>\<open>_optimize_application_contexts\<close> over the keys that
  \<^verbatim>\<open>session_data\<close> had when the loop began.\<close>

fun strip_files :: "heap \<Rightarrow> pyval \<Rightarrow> string list \<Rightarrow> error + heap" where
  "strip_files h session_data [] = Inr h"
| "strip_files h session_data (key # keys) =
     (if endswith key ''_files'' then
        bind_err (subscript h session_data key) (\<lambda>v.
          case list_elems h v of
            Some files \<Rightarrow>
              bind_err (map_err basename_val files) (\<lambda>names.
                case alloc h (OList names) of
                  (h1, r) \<Rightarrow>
                    bind_err (assign h1 session_data key r) (\<lambda>h2.
                      strip_files h2 session_data keys))
          | None \<Rightarrow> strip_files h session_data keys)
      else strip_files h session_data keys)"

text \<open>The body of the loop of \<^verbatim>\<open>_optimize_application_contexts\<close> for one context.\<close>

definition optimize_context :: "heap \<Rightarrow> pyval \<Rightarrow> error + heap \<times> pyval" where
  "optimize_context h context =
    bind_err (copy_val h context) (\<lambda>(h1, optimized_context).
    bind_err (key_in h1 ''session_data'' optimized_context) (\<lambda>present.
      if present then
        bind_err (subscript h1 optimized_context ''session_data'') (\<lambda>session_data.
          case dict_items h1 session_data of
            Some items \<Rightarrow>
              bind_err (strip_files h1 session_data (map fst items)) (\<lambda>h2.
                Inr (h2, optimized_context))
          | None \<Rightarrow> Inr (h1, optimized_context))
      else Inr (h1, optimized_context)))"

text \<open>The body of the loop of \<^verbatim>\<open>_optimize_terminal_sessions\<close> for one session.\<close>

definition essential_vars :: "string list" where
  "essential_vars = [''PWD'', ''TERM'', ''SHELL'', ''PATH'', ''HOME'', ''USER'']"

definition optimize_terminal_session :: "heap \<Rightarrow> pyval \<Rightarrow> error + heap \<times> pyval" where
  "optimize_terminal_session h session =
    bind_err (copy_val h session) (\<lambda>(h1, optimized_session).
    bind_err (key_in h1 ''environment'' optimized_session) (\<lambda>present.
      if present then
        bind_err (subscript h1 optimized_session ''environment'') (\<lambda>env.
        bind_err (key_in h1 ''environment_variables'' env) (\<lambda>has_vars.
          if has_vars then
            bind_err (subscript h1 env ''environment_variables'') (\<lambda>vars.
              case dict_items h1 vars of
                Some items \<Rightarrow>
                  (case alloc h1 (ODict (filter (\<lambda>kv. fst kv \<in> set essential_vars) items)) of
                     (h2, kept) \<Rightarrow>
                       bind_err (assign h2 env ''environment_variables'' kept) (\<lambda>h3.
                         Inr (h3, optimized_session)))
              | None \<Rightarrow> Inl AttributeError)
          else Inr (h1, optimized_session)))
      else Inr (h1, optimized_session)))"

text \<open>The body of the loop of \<^verbatim>\<open>_optimize_browser_sessions\<close> for one session.\<close>

definition optimize_browser_session :: "heap \<Rightarrow> pyval \<Rightarrow> error + heap \<times> pyval" where
  "optimize_browser_session h session =
    bind_err (copy_val h session) (\<lambda>(h1, optimized_session).
    bind_err (key_in h1 ''session_data'' optimized_session) (\<lambda>present.
      if present then
        bind_err (subscript h1 optimized_session ''session_data'') (\<lambda>session_data.
        bind_err (key_in h1 ''session_file'' session_data) (\<lambda>has_file.
          if has_file then
            bind_err (subscript h1 session_data ''session_file'') (\<lambda>file.
            bind_err (basename_val file) (\<lambda>name.
            bind_err (assign h1 session_data ''session_file'' name) (\<lambda>h2.
              Inr (h2, optimized_session))))
          else Inr (h1, optimized_session)))
      else Inr (h1, optimized_session)))"

text \<open>A loop over a list in the heap that appends one value per element to a new list.\<close>

fun loop_heap ::
  "(heap \<Rightarrow> pyval \<Rightarrow> error + heap \<times> pyval) \<Rightarrow> heap \<Rightarrow> pyval list \<Rightarrow> error + heap \<times> pyval list"
where
  "loop_heap body h [] = Inr (h, [])"
| "loop_heap body h (x # xs) =
     bind_err (body h x) (\<lambda>(h1, y).
       bind_err (loop_heap body h1 xs) (\<lambda>(h2, ys). Inr (h2, y # ys)))"

text \<open>The sequence that a \<^verbatim>\<open>for\<close> loop runs over: the elements of a list, the keys of a
  dictionary, the characters of a string.\<close>

definition iter_val :: "heap \<Rightarrow> pyval \<Rightarrow> error + pyval list" where
  "iter_val h v =
    (case v of
       VRef a \<Rightarrow>
         (if a < length h then
            (case h ! a of
               OList vs \<Rightarrow> Inr vs
             | ODict items \<Rightarrow> Inr (map (\<lambda>kv. VStr (fst kv)) items))
          else Inl KeyError)
     | VStr s \<Rightarrow> Inr (map (\<lambda>c. VStr [c]) s)
     | _ \<Rightarrow> Inl TypeError)"

text \<open>\<^verbatim>\<open>optimized = []\<close>, the loop, \<^verbatim>\<open>return optimized\<close>. The new list is created before
  the loop runs; its address is the one the heap has to give at that moment.\<close>

definition optimize_list ::
  "(heap \<Rightarrow> pyval \<Rightarrow> error + heap \<times> pyval) \<Rightarrow> heap \<Rightarrow> pyval \<Rightarrow> error + heap \<times> pyval"
where
  "optimize_list body h xs =
    (case alloc h (OList []) of
       (h0, optimized) \<Rightarrow>
         bind_err (iter_val h0 xs) (\<lambda>elems.
         bind_err (loop_heap body h0 elems) (\<lambda>(h1, ys).
           case optimized of
             VRef a \<Rightarrow> Inr (h1[a := OList ys], optimized)
           | _ \<Rightarrow> Inr (h1, optimized))))"

definition optimize_application_contexts :: "heap \<Rightarrow> pyval \<Rightarrow> error + heap \<times> pyval" where
  "optimize_application_contexts h contexts = optimize_list optimize_context h contexts"

definition optimize_terminal_sessions :: "heap \<Rightarrow> pyval \<Rightarrow> error + heap \<times> pyval" where
  "optimize_terminal_sessions h sessions = optimize_list optimize_terminal_session h sessions"

definition optimize_browser_sessions :: "heap \<Rightarrow> pyval \<Rightarrow> error + heap \<times> pyval" where
  "optimize_browser_sessions h sessions = optimize_list optimize_browser_session h sessions"

text \<open>A \<^verbatim>\<open>QuantumState\<close> instance whose fields refer into the heap.\<close>

record QuantumStateRef =
  timestamp_ref :: pyval
  session_id_ref :: pyval
  monitor_layouts_ref :: pyval
  workspace_states_ref :: pyval
  window_states_ref :: pyval
  application_contexts_ref :: pyval
  terminal_sessions_ref :: pyval
  browser_sessions_ref :: pyval
  development_environments_ref :: pyval
  system_state_ref :: pyval
  validation_checksums_ref :: pyval

text \<open>\<^verbatim>\<open>optimize_state_capture\<close>; \<open>performance_optimization\<close> is the configuration
  entry of that name.\<close>

definition optimize_state_capture ::
  "bool \<Rightarrow> heap \<Rightarrow> QuantumStateRef \<Rightarrow> error + heap \<times> QuantumStateRef"
where
  "optimize_state_capture performance_optimization h state =
    (if \<not> performance_optimization then Inr (h, state)
     else
       bind_err (optimize_application_contexts h (application_contexts_ref state)) (\<lambda>(h1, apps).
       bind_err (optimize_terminal_sessions h1 (terminal_sessions_ref state)) (\<lambda>(h2, terms).
       bind_err (optimize_browser_sessions h2 (browser_sessions_ref state)) (\<lambda>(h3, browsers).
         Inr (h3,
           \<lparr>timestamp_ref = timestamp_ref state,
            session_id_ref = session_id_ref state,
            monitor_layouts_ref = monitor_layouts_ref state,
            workspace_states_ref = workspace_states_ref state,
            window_states_ref = window_states_ref state,
            application_contexts_ref = apps,
            terminal_sessions_ref = terms,
            browser_sessions_ref = browsers,
            development_environments_ref = development_environments_ref state,
            system_state_ref = system_state_ref state,
            validation_checksums_ref = validation_checksums_ref state\<rparr>)))))"

text \<open>The content of a snapshot: what its eleven fields hold in a heap.\<close>

definition read_state :: "nat \<Rightarrow> heap \<Rightarrow> QuantumStateRef \<Rightarrow> json option list" where
  "read_state fuel h state = map (heap_read fuel h)
     [timestamp_ref state, session_id_ref state, monitor_layouts_ref state,
      workspace_states_ref state, window_states_ref state, application_contexts_ref state,
      terminal_sessions_ref state, browser_sessions_ref state,
      development_environments_ref state, system_state_ref state,
      validation_checksums_ref state]"

section \<open>Mutation and identity of content\<close>



text \<open>Two values have the same content when they are the same atom, lists of the same
  length whose elements have the same content, or dictionaries with the same keys whose
  values under each key have the same content, whatever the order of the keys.\<close>

fun same_content :: "json \<Rightarrow> json \<Rightarrow> bool" where
  "same_content JNull b = (b = JNull)"
| "same_content (JBool x) b = (b = JBool x)"
| "same_content (JInt i) b = (b = JInt i)"
| "same_content (JStr s) b = (b = JStr s)"
| "same_content (JList xs) b = (case b of JList ys \<Rightarrow> list_all2 same_content xs ys | _ \<Rightarrow> False)"
| "same_content (JDict kvs) b = (case b of
      JDict kvs' \<Rightarrow> length kvs = length kvs' \<and>
        list_all (\<lambda>kv. case map_of kvs' (fst kv) of
                          None \<Rightarrow> False | Some v' \<Rightarrow> same_content (snd kv) v') kvs
    | _ \<Rightarrow> False)"

section \<open>Reading the records\<close>

text \<open>What the properties below read from a record or from an entry of a topic: the id,
  the address, the active flag, the embedded clients; and the entries that the
  compositor emits, objects, with a number as id.\<close>

definition is_object :: "json \<Rightarrow> bool" where
  "is_object v = (case v of JDict kvs \<Rightarrow> True | _ \<Rightarrow> False)"

definition has_numeric_id :: "json \<Rightarrow> bool" where
  "has_numeric_id w =
    (case w of
       JDict kvs \<Rightarrow> (case map_of kvs ''id'' of
                       Some (JInt i) \<Rightarrow> True | Some (JBool b) \<Rightarrow> True | _ \<Rightarrow> False)
     | _ \<Rightarrow> False)"

definition id_of :: "json \<Rightarrow> json" where
  "id_of v = (case v of JDict kvs \<Rightarrow> dict_get kvs ''id'' JNull | _ \<Rightarrow> JNull)"

definition address_of :: "json \<Rightarrow> json" where
  "address_of v = (case v of JDict kvs \<Rightarrow> dict_get kvs ''address'' JNull | _ \<Rightarrow> JNull)"

definition active_flag :: "json \<Rightarrow> json" where
  "active_flag w = (case w of JDict kvs \<Rightarrow> dict_get kvs ''active'' JNull | _ \<Rightarrow> JNull)"

definition embedded_clients :: "json \<Rightarrow> json" where
  "embedded_clients w = (case w of JDict kvs \<Rightarrow> dict_get kvs ''clients'' JNull | _ \<Rightarrow> JNull)"

section \<open>Example inputs\<close>

definition example_state :: QuantumState where
  "example_state =
    \<lparr>timestamp = JStr ''2025-01-01T00:00:00'',
     session_id = JStr ''quantum_1735689600'',
     monitor_layouts = JList [JDict [(''id'', JInt 0), (''name'', JStr ''eDP-1'')]],
     workspace_states = JList [],
     window_states = JList [],
     application_contexts = JList [],
     terminal_sessions = JList [],
     browser_sessions = JList [],
     development_environments = JList [],
     system_state = JDict [],
     validation_checksums = JDict []\<rparr>"





text \<open>Answers of the compositor: one monitor, one workspace, two clients of which the
  second is the active window; and a legacy artifact.\<close>

definition example_monitors :: "json option" where
  "example_monitors = Some (JList [JDict [(''id'', JInt 0), (''name'', JStr ''eDP-1'')]])"

definition example_workspaces :: "json option" where
  "example_workspaces = Some (JList [JDict [(''id'', JInt 1), (''name'', JStr ''1'')]])"

definition example_clients :: "json option" where
  "example_clients = Some (JList
     [JDict [(''address'', JStr ''0x1''), (''class'', JStr ''kitty'')],
      JDict [(''address'', JStr ''0x2''), (''class'', JStr ''firefox'')]])"

definition example_activewindow :: "json option" where
  "example_activewindow = Some (JDict [(''address'', JStr ''0x2''), (''class'', JStr ''firefox'')])"

definition example_legacy :: "(string \<times> json) list" where
  "example_legacy =
    [(''monitors'', JList [JDict [(''id'', JInt 1), (''name'', JStr ''Legacy Monitor'')]]),
     (''workspaces'', JList [JDict [(''id'', JInt 1), (''name'', JStr ''Legacy Workspace'')]]),
     (''environments'', JList [JDict [(''type'', JStr ''legacy''), (''name'', JStr ''legacy-env'')]])]"

text \<open>A snapshot in the heap: one application context whose session data lists two open
  files, and nothing else.\<close>

definition example_heap :: heap where
  "example_heap =
    [OList [VStr ''/home/u/src/a.py'', VStr ''/home/u/b.txt''],
     ODict [(''open_files'', VRef 0)],
     ODict [(''class'', VStr ''code''), (''session_data'', VRef 1)],
     OList [VRef 2],
     OList [], OList [], OList [], OList [], OList [], OList [],
     ODict [], ODict []]"

definition example_ref :: QuantumStateRef where
  "example_ref =
    \<lparr>timestamp_ref = VStr ''2025-01-01T00:00:00'',
     session_id_ref = VStr ''quantum_1735689600'',
     monitor_layouts_ref = VRef 4,
     workspace_states_ref = VRef 5,
     window_states_ref = VRef 6,
     application_contexts_ref = VRef 3,
     terminal_sessions_ref = VRef 7,
     browser_sessions_ref = VRef 8,
     development_environments_ref = VRef 9,
     system_state_ref = VRef 10,
     validation_checksums_ref = VRef 11\<rparr>"

section \<open>Properties of the checksums\<close>

lemma generate_validation_checksums_indep [simp]:
  "generate_validation_checksums (state\<lparr>validation_checksums := v\<rparr>)
     = generate_validation_checksums state"
  by (simp add: generate_validation_checksums_def components_def asdict_def dict_pop_def)

lemma py_eq_JStr_iff [simp]: "py_eq x (JStr s) = (x = JStr s)"
  by (cases x) auto

lemma py_eq_get_checksum_refl [simp]: "py_eq (get_checksum cs c) (get_checksum cs c)"
  by (simp add: get_checksum_def split: option.split)

lemma components_match_sub:
  assumes "\<And>c d. (c, d) \<in> set stored \<Longrightarrow> c \<noteq> ''overall'' \<Longrightarrow> d = get_checksum current c"
  shows "components_match current stored"
  using assms
proof (induction stored)
  case Nil
  then show ?case by simp
next
  case (Cons kv stored)
  obtain c d where kv: "kv = (c, d)" by (cases kv)
  have rest: "components_match current stored"
    using Cons by auto
  show ?case
  proof (cases "c = ''overall''")
    case True
    then show ?thesis using rest kv by simp
  next
    case False
    then have "d = get_checksum current c" using Cons.prems kv by auto
    then show ?thesis using rest kv False by simp
  qed
qed

lemma map_of_checksums_distinct:
  assumes "distinct (map fst cs)" and "(c, d) \<in> set (map (\<lambda>cd. (fst cd, JStr (snd cd))) cs)"
  shows "d = get_checksum cs c"
proof -
  from assms(2) obtain s where "(c, s) \<in> set cs" and d: "d = JStr s" by auto
  with assms(1) have "map_of cs c = Some s" by simp
  then show ?thesis using d by (simp add: get_checksum_def)
qed

lemma distinct_generate_keys: "distinct (map fst (generate_validation_checksums state))"
  by (simp add: generate_validation_checksums_def components_def)

lemma map_of_overall_generate:
  "map_of (generate_validation_checksums state) ''overall''
     = Some (generate_state_checksum (JDict (dict_pop ''validation_checksums'' (asdict state))))"
  by (simp add: generate_validation_checksums_def components_def)

lemma map_of_checksums_json:
  "map_of (map (\<lambda>cd. (fst cd, JStr (snd cd))) cs) k = map_option JStr (map_of cs k)"
  by (induction cs) auto

lemma validate_stored_subset:
  assumes sub: "set stored \<subseteq> set (generate_validation_checksums state)"
    and ov: "map_of stored ''overall'' = map_of (generate_validation_checksums state) ''overall''"
  shows "validate_state_checksums (state\<lparr>validation_checksums := checksums_json stored\<rparr>)"
proof -
  let ?cur = "generate_validation_checksums state"
  have "components_match ?cur (map (\<lambda>cd. (fst cd, JStr (snd cd))) stored)"
  proof (rule components_match_sub)
    fix c d
    assume "(c, d) \<in> set (map (\<lambda>cd. (fst cd, JStr (snd cd))) stored)"
    then have "(c, d) \<in> set (map (\<lambda>cd. (fst cd, JStr (snd cd))) ?cur)"
      using sub by auto
    then show "d = get_checksum ?cur c"
      by (rule map_of_checksums_distinct [OF distinct_generate_keys])
  qed
  then show ?thesis
    by (simp add: validate_state_checksums_def checksums_json_def map_of_checksums_json ov
        map_of_overall_generate get_checksum_def)
qed

text \<open>
  Claim C10. For every snapshot, storing the checksums that
  \<^verbatim>\<open>generate_validation_checksums\<close> computes for it and validating at once succeeds,
  whatever the checksum field held when the checksums were generated: the overall
  digest leaves the checksum field out of its input.
\<close>

theorem generate_then_validate:
  "validate_state_checksums
     (state\<lparr>validation_checksums := checksums_json (generate_validation_checksums state)\<rparr>)"
  by (rule validate_stored_subset) simp_all


lemma length_md5_digest: "length (md5_digest bs) = 16"
  by (simp add: md5_digest_def le_bytes_def split: prod.split)

lemma finite_range_md5_hexdigest: "finite (range md5_hexdigest)"
proof -
  have "finite {bs :: byte list. set bs \<subseteq> UNIV \<and> length bs = 16}"
    by (rule finite_lists_length_eq) simp
  then have "finite (hexdigest ` {bs :: byte list. set bs \<subseteq> UNIV \<and> length bs = 16})"
    by (rule finite_imageI)
  moreover have "range md5_hexdigest
      \<subseteq> hexdigest ` {bs :: byte list. set bs \<subseteq> UNIV \<and> length bs = 16}"
    by (auto simp: md5_hexdigest_def length_md5_digest)
  ultimately show ?thesis by (rule rev_finite_subset)
qed


lemma two_strings_one_digest:
  "\<exists>s t. s \<noteq> t \<and> generate_state_checksum (JStr s) = generate_state_checksum (JStr t)"
proof -
  let ?f = "\<lambda>s. generate_state_checksum (JStr s)"
  have "range ?f \<subseteq> range md5_hexdigest"
    by (auto simp: generate_state_checksum_def)
  then have "finite (range ?f)"
    using finite_range_md5_hexdigest by (rule finite_subset)
  moreover have "infinite (UNIV :: string set)"
    by (rule infinite_UNIV_listI)
  ultimately have "\<not> inj ?f"
    using finite_imageD by blast
  then show ?thesis
    by (auto simp: inj_on_def)
qed








lemma insort_key_fst_map:
  assumes "\<And>x. fst (F x) = fst x"
  shows "insort_key fst (F x) (map F ys) = map F (insort_key fst x ys)"
  by (induction ys) (simp_all add: assms)

lemma sort_key_fst_map:
  assumes "\<And>x. fst (F x) = fst x"
  shows "sort_key fst (map F xs) = map F (sort_key fst xs)"
  by (induction xs) (simp_all add: insort_key_fst_map assms)

lemma json_dumps_dict_items:
  "json_dumps (JDict kvs) =
     ''{'' @ join '', ''
        (map (\<lambda>p. encode_basestring_ascii (fst p) @ '': '' @ snd p)
             (sort_key fst (map (\<lambda>kv. (fst kv, json_dumps (snd kv))) kvs))) @ ''}''"
  by (simp add: sort_key_fst_map comp_def)

lemma sort_key_same_items:
  fixes xs ys :: "(string \<times> string) list"
  assumes dx: "distinct (map fst xs)" and dy: "distinct (map fst ys)"
    and len: "length xs = length ys" and sub: "set xs \<subseteq> set ys"
  shows "sort_key fst xs = sort_key fst ys"
proof -
  have x: "distinct xs" and y: "distinct ys"
    using dx dy by (simp_all add: distinct_map)
  have "card (set xs) = card (set ys)"
    using x y len by (simp add: distinct_card)
  with sub have "set xs = set ys"
    by (simp add: card_subset_eq)
  with x y have m: "mset xs = mset (sort_key fst ys)"
    by (simp add: set_eq_iff_mset_eq_distinct)
  have inj: "inj_on fst (set xs)"
    using dx by (simp add: distinct_map)
  show ?thesis
    by (rule sort_key_inj_key_eq [OF m inj]) simp
qed

lemma same_content_json_dumps:
  "wf_json a \<Longrightarrow> wf_json b \<Longrightarrow> same_content a b \<Longrightarrow> json_dumps a = json_dumps b"
proof (induction a arbitrary: b)
  case (JList xs)
  from JList.prems(3) obtain ys where b: "b = JList ys" and rel: "list_all2 same_content xs ys"
    by (cases b) simp_all
  have "list_all2 (\<lambda>x y. json_dumps x = json_dumps y) xs ys"
    using rel
  proof (rule list.rel_mono_strong)
    fix x y assume "x \<in> set xs" "y \<in> set ys" "same_content x y"
    moreover have "wf_json x" using JList.prems(1) \<open>x \<in> set xs\<close> by (simp add: list_all_iff)
    moreover have "wf_json y" using JList.prems(2) \<open>y \<in> set ys\<close> b by (simp add: list_all_iff)
    ultimately show "json_dumps x = json_dumps y" by (intro JList.IH)
  qed
  then have "map json_dumps xs = map json_dumps ys"
    by (simp add: list.rel_map list.rel_eq [symmetric] del: list.rel_eq)
  then show ?case using b by simp
next
  case (JDict kvs)
  from JDict.prems(3) obtain kvs' where b: "b = JDict kvs'" and len: "length kvs = length kvs'"
    and all: "list_all (\<lambda>kv. case map_of kvs' (fst kv) of
                          None \<Rightarrow> False | Some v' \<Rightarrow> same_content (snd kv) v') kvs"
    by (cases b) simp_all
  let ?G = "map (\<lambda>kv. (fst kv, json_dumps (snd kv)))"
  have sub: "set (?G kvs) \<subseteq> set (?G kvs')"
  proof
    fix p assume "p \<in> set (?G kvs)"
    then obtain kv where kv: "kv \<in> set kvs" and p: "p = (fst kv, json_dumps (snd kv))"
      by auto
    from all kv obtain v' where m: "map_of kvs' (fst kv) = Some v'"
      and sc: "same_content (snd kv) v'"
      by (auto simp: list_all_iff split: option.splits)
    from m have in': "(fst kv, v') \<in> set kvs'" by (rule map_of_SomeD)
    have "wf_json (snd kv)" using JDict.prems(1) kv by (simp add: list_all_iff)
    moreover have "wf_json v'" using JDict.prems(2) in' b by (force simp: list_all_iff)
    moreover have "snd kv \<in> Basic_BNFs.snds kv" by (cases kv) simp
    ultimately have "json_dumps (snd kv) = json_dumps v'"
      using sc kv by (intro JDict.IH)
    then have pe: "p = (\<lambda>kv. (fst kv, json_dumps (snd kv))) (fst kv, v')"
      using p by simp
    show "p \<in> set (?G kvs')"
      unfolding set_map using pe in' by (rule image_eqI)
  qed
  have "sort_key fst (?G kvs) = sort_key fst (?G kvs')"
    by (rule sort_key_same_items)
       (use JDict.prems(1,2) b len sub in \<open>simp_all add: comp_def\<close>)
  then show ?case
    unfolding b json_dumps_dict_items by simp
qed simp_all

lemma digest_monitors_eDP1:
  "generate_state_checksum (JList [JDict [(''id'', JInt 0), (''name'', JStr ''eDP-1'')]])
     = ''a6a418fa43e00ae55336c285ea864c64''"
  by code_simp







text \<open>
  Claim C2, as stated, fails in its last part: a digest has 128 bits, so there are two
  different strings with the same checksum.
\<close>

theorem two_values_one_digest:
  "\<exists>s t. s \<noteq> t \<and> \<not> same_content (JStr s) (JStr t)
     \<and> generate_state_checksum (JStr s) = generate_state_checksum (JStr t)"
  using two_strings_one_digest by auto

text \<open>
  Claim C2, amended. Two values with the same content, whatever the order in which the
  keys of their dictionaries were inserted, have the same canonical serialisation and
  the same checksum. The checksum is a function of the value, so repeated calls on a
  value return the same digest.
\<close>

theorem checksum_same_content:
  assumes "wf_json a" and "wf_json b" and "same_content a b"
  shows "json_dumps a = json_dumps b
       \<and> generate_state_checksum a = generate_state_checksum b"
  using same_content_json_dumps [OF assms] by (simp add: generate_state_checksum_def)

theorem checksum_same_content_witness:
  "wf_json (JList [JDict [(''id'', JInt 0), (''name'', JStr ''eDP-1'')]])
   \<and> wf_json (JList [JDict [(''name'', JStr ''eDP-1''), (''id'', JInt 0)]])
   \<and> same_content (JList [JDict [(''id'', JInt 0), (''name'', JStr ''eDP-1'')]])
                    (JList [JDict [(''name'', JStr ''eDP-1''), (''id'', JInt 0)]])
   \<and> generate_state_checksum (JList [JDict [(''name'', JStr ''eDP-1''), (''id'', JInt 0)]])
       = ''a6a418fa43e00ae55336c285ea864c64''"
proof -
  let ?a = "JList [JDict [(''id'', JInt 0), (''name'', JStr ''eDP-1'')]]"
  let ?b = "JList [JDict [(''name'', JStr ''eDP-1''), (''id'', JInt 0)]]"
  have a: "wf_json ?a" by simp
  have b: "wf_json ?b" by simp
  have s: "same_content ?a ?b" by simp
  from checksum_same_content [OF a b s] a b s show ?thesis
    by (simp add: digest_monitors_eDP1)
qed

section \<open>Properties of the capturers\<close>

lemma map_err_Inr:
  assumes "\<And>x. x \<in> set xs \<Longrightarrow> f x = Inr (g x)"
  shows "map_err f xs = Inr (map g xs)"
  using assms by (induction xs) (simp_all add: bind_err_def)

lemma workspace_state_numeric:
  assumes "py_lt_zero (dict_get kvs ''id'' JNull) = Inr special"
  shows "workspace_state (JList []) (JDict kvs) = Inr (JDict
        [(''id'', dict_get kvs ''id'' JNull),
         (''name'', dict_get kvs ''name'' JNull),
         (''monitor'', dict_get kvs ''monitor'' JNull),
         (''monitorID'', dict_get kvs ''monitorID'' JNull),
         (''windows'', dict_get kvs ''windows'' (JInt 0)),
         (''hasfullscreen'', dict_get kvs ''hasfullscreen'' (JBool False)),
         (''lastwindow'', dict_get kvs ''lastwindow'' (JStr [])),
         (''lastwindowtitle'', dict_get kvs ''lastwindowtitle'' (JStr [])),
         (''clients'', JList []),
         (''persistent'', dict_get kvs ''persistent'' (JBool False)),
         (''specialWorkspace'', JBool special)])"
  using assms
  unfolding workspace_state_def bind_err_def dict_get_def
  by simp

lemma has_numeric_id_lt_zero:
  assumes "has_numeric_id w"
  shows "\<exists>kvs special. w = JDict kvs \<and> py_lt_zero (dict_get kvs ''id'' JNull) = Inr special"
proof (cases w)
  case (JDict kvs)
  show ?thesis
  proof (cases "map_of kvs ''id''")
    case None
    with JDict assms show ?thesis by (simp add: has_numeric_id_def)
  next
    case (Some v)
    with JDict assms show ?thesis
      by (cases v) (auto simp: has_numeric_id_def dict_get_def)
  qed
qed (use assms in \<open>simp_all add: has_numeric_id_def\<close>)

lemma workspace_state_no_clients:
  assumes "has_numeric_id w"
  shows "\<exists>s. workspace_state (JList []) w = Inr s \<and> embedded_clients s = JList []
              \<and> id_of s = id_of w"
proof -
  from has_numeric_id_lt_zero [OF assms] obtain kvs special
    where w: "w = JDict kvs" and lt: "py_lt_zero (dict_get kvs ''id'' JNull) = Inr special"
    by blast
  show ?thesis
    unfolding w workspace_state_numeric [OF lt]
    by (simp add: embedded_clients_def id_of_def dict_get_def)
qed

text \<open>
  Claim C5, as stated, fails: for a workspace entry without an id the capturer takes
  \<^verbatim>\<open>workspace.get("id")\<close>, which is \<^verbatim>\<open>None\<close>, and then evaluates \<^verbatim>\<open>None < 0\<close>,
  which raises a type error that nothing catches.
\<close>

theorem workspace_without_id_raises:
  "capture_workspace_states (Some (JList [JDict [(''name'', JStr ''1'')]])) None = Inl TypeError"
  by (simp add: capture_workspace_states_def py_or_def workspace_state_def bind_err_def)

text \<open>
  Claim C5, amended. When the \<^verbatim>\<open>clients\<close> query is absent or gives an empty list, and
  the \<^verbatim>\<open>workspaces\<close> topic is absent or a list whose entries are objects with a number
  as id, workspace capture raises nothing and returns one record per workspace, in
  order, each with the id of its workspace and an empty list of embedded clients.
\<close>

theorem capture_workspaces_without_clients:
  assumes clients: "clients_result = None \<or> clients_result = Some (JList [])"
    and topic: "py_or workspaces_result (JList []) = JList workspaces"
    and ids: "list_all has_numeric_id workspaces"
  shows "\<exists>states. capture_workspace_states workspaces_result clients_result = Inr states
           \<and> length states = length workspaces
           \<and> list_all (\<lambda>s. embedded_clients s = JList []) states
           \<and> map id_of states = map id_of workspaces"
proof -
  define g where "g w = (SOME s. workspace_state (JList []) w = Inr s \<and> embedded_clients s = JList []
              \<and> id_of s = id_of w)" for w
  have g: "workspace_state (JList []) w = Inr (g w) \<and> embedded_clients (g w) = JList []
              \<and> id_of (g w) = id_of w" if "has_numeric_id w" for w
    unfolding g_def using workspace_state_no_clients [OF that] by (rule someI_ex)
  have cl: "py_or clients_result (JList []) = JList []"
    using clients by (auto simp: py_or_def)
  have "map_err (workspace_state (JList [])) workspaces = Inr (map g workspaces)"
    by (rule map_err_Inr) (use ids g in \<open>auto simp: list_all_iff\<close>)
  then have "capture_workspace_states workspaces_result clients_result = Inr (map g workspaces)"
    by (simp add: capture_workspace_states_def cl topic bind_err_def)
  moreover have "list_all (\<lambda>s. embedded_clients s = JList []) (map g workspaces)"
    using ids g by (auto simp: list_all_iff)
  moreover have "map id_of (map g workspaces) = map id_of workspaces"
    using ids g by (auto simp: list_all_iff)
  ultimately show ?thesis by simp
qed

theorem capture_workspaces_without_clients_witness:
  "((None :: json option) = None \<or> (None :: json option) = Some (JList []))
   \<and> py_or example_workspaces (JList []) = JList [JDict [(''id'', JInt 1), (''name'', JStr ''1'')]]
   \<and> list_all has_numeric_id [JDict [(''id'', JInt 1), (''name'', JStr ''1'')]]
   \<and> (\<exists>states. capture_workspace_states example_workspaces None = Inr states
         \<and> length states = 1
         \<and> list_all (\<lambda>s. embedded_clients s = JList []) states
         \<and> map id_of states = [JInt 1])"
proof -
  have c: "(None :: json option) = None \<or> (None :: json option) = Some (JList [])"
    by simp
  have t: "py_or example_workspaces (JList [])
             = JList [JDict [(''id'', JInt 1), (''name'', JStr ''1'')]]"
    by (simp add: example_workspaces_def py_or_def)
  have i: "list_all has_numeric_id [JDict [(''id'', JInt 1), (''name'', JStr ''1'')]]"
    by (simp add: has_numeric_id_def)
  from capture_workspaces_without_clients [OF c t i] c t i show ?thesis
    by (simp add: id_of_def dict_get_def)
qed

lemma window_state_active:
  "active_flag (case window_state (JDict aw) (JDict c) of Inr s \<Rightarrow> s | Inl e \<Rightarrow> JNull)
     = JBool (py_eq (address_of (JDict c)) (address_of (JDict aw)))
   \<and> (\<exists>s. window_state (JDict aw) (JDict c) = Inr s)"
  unfolding window_state_def bind_err_def
  by (simp add: active_flag_def address_of_def dict_get_def)

text \<open>
  Claim C6, as stated, fails: with no active window the address compared against is
  \<^verbatim>\<open>None\<close>, and a client without an address has the address \<^verbatim>\<open>None\<close> too, so it is
  marked active.
\<close>

theorem window_without_address_marked_active:
  "map_sum id (map active_flag)
     (capture_window_states (Some (JList [JDict [(''class'', JStr ''kitty'')]])) None)
   = Inr [JBool True]"
  by (simp add: capture_window_states_def py_or_def window_state_def bind_err_def
      active_flag_def dict_get_def)

text \<open>
  Claim C6, amended. When the \<^verbatim>\<open>clients\<close> topic is a sequence of objects and the active
  window is absent or an object, window capture returns one record per client whose
  active flag is the outcome of \<^verbatim>\<open>client.get("address") == active_window.get("address")\<close>,
  a missing address being \<^verbatim>\<open>None\<close>. With the active window absent the flag is true
  exactly for the clients whose address is missing or null, so no window that has an
  address is marked active.
\<close>

theorem capture_windows_active_flag:
  assumes clients: "py_iter (py_or clients_result (JList [])) = Inr clients"
    and objects: "list_all is_object clients"
    and aw: "py_or activewindow_result (JDict []) = JDict active_window"
  shows "\<exists>states. capture_window_states clients_result activewindow_result = Inr states
           \<and> map active_flag states
              = map (\<lambda>c. JBool (py_eq (address_of c) (address_of (JDict active_window)))) clients
           \<and> (activewindow_result = None \<longrightarrow>
                map active_flag states = map (\<lambda>c. JBool (address_of c = JNull)) clients)"
proof -
  define g where
    "g c = (case window_state (JDict active_window) c of Inr s \<Rightarrow> s | Inl e \<Rightarrow> JNull)" for c
  have g: "window_state (JDict active_window) c = Inr (g c)
            \<and> active_flag (g c) = JBool (py_eq (address_of c) (address_of (JDict active_window)))"
    if "is_object c" for c
  proof -
    from that obtain kvs where c: "c = JDict kvs"
      by (cases c) (simp_all add: is_object_def)
    from window_state_active [of active_window kvs] show ?thesis
      unfolding g_def c by auto
  qed
  have "map_err (window_state (JDict active_window)) clients = Inr (map g clients)"
    by (rule map_err_Inr) (use objects g in \<open>auto simp: list_all_iff\<close>)
  then have res: "capture_window_states clients_result activewindow_result = Inr (map g clients)"
    by (simp add: capture_window_states_def clients aw bind_err_def)
  have flags: "map active_flag (map g clients)
      = map (\<lambda>c. JBool (py_eq (address_of c) (address_of (JDict active_window)))) clients"
    using objects g by (auto simp: list_all_iff)
  have absent: "map active_flag (map g clients) = map (\<lambda>c. JBool (address_of c = JNull)) clients"
    if "activewindow_result = None"
  proof -
    from that aw have "active_window = []" by (simp add: py_or_def)
    then have "address_of (JDict active_window) = JNull"
      by (simp add: address_of_def dict_get_def)
    moreover have "py_eq x JNull = (x = JNull)" for x by (cases x) auto
    ultimately show ?thesis using flags by simp
  qed
  from res flags absent show ?thesis by blast
qed

theorem capture_windows_active_flag_witness:
  "(\<exists>clients active_window.
      py_iter (py_or example_clients (JList [])) = Inr clients
    \<and> list_all is_object clients
    \<and> py_or example_activewindow (JDict []) = JDict active_window)
   \<and> map_sum id (map active_flag) (capture_window_states example_clients example_activewindow)
       = Inr [JBool False, JBool True]"
proof -
  let ?clients = "[JDict [(''address'', JStr ''0x1''), (''class'', JStr ''kitty'')],
      JDict [(''address'', JStr ''0x2''), (''class'', JStr ''firefox'')]]"
  let ?aw = "[(''address'', JStr ''0x2''), (''class'', JStr ''firefox'')]"
  have c: "py_iter (py_or example_clients (JList [])) = Inr ?clients"
    by (simp add: example_clients_def py_or_def)
  have o: "list_all is_object ?clients"
    by (simp add: is_object_def)
  have a: "py_or example_activewindow (JDict []) = JDict ?aw"
    by (simp add: example_activewindow_def py_or_def)
  from capture_windows_active_flag [OF c o a] obtain states
    where "capture_window_states example_clients example_activewindow = Inr states"
      and "map active_flag states
             = map (\<lambda>c. JBool (py_eq (address_of c) (address_of (JDict ?aw)))) ?clients"
    by blast
  then have "map_sum id (map active_flag)
               (capture_window_states example_clients example_activewindow)
             = Inr [JBool False, JBool True]"
    by (simp add: address_of_def dict_get_def)
  with c o a show ?thesis by blast
qed

section \<open>Properties of compatibility and migration\<close>

text \<open>
  Claim C4, as stated, fails in its last part: with equal monitor counts and enough
  live workspaces the result is still false when \<^verbatim>\<open>capture_system_state\<close> raises,
  since the call stands inside the \<^verbatim>\<open>try\<close> block whose handler returns false.
\<close>

theorem compatibility_rejected_when_system_capture_fails:
  "map_sum id length (capture_monitor_layouts (JInt 1) example_monitors) = Inr 1
   \<and> py_len (monitor_layouts example_state) = Inr 1
   \<and> map_sum id length (capture_workspace_states example_workspaces None) = Inr 1
   \<and> py_len (workspace_states example_state) = Inr 0
   \<and> \<not> validate_state_compatibility (JInt 1) example_monitors example_workspaces None
          (Inl OSError) example_state"
  by (simp add: validate_state_compatibility_def capture_monitor_layouts_def
      capture_workspace_states_def workspace_state_def bind_err_def py_or_def dict_get_def
      example_monitors_def example_workspaces_def example_state_def)

text \<open>
  Claim C4, amended. \<^verbatim>\<open>validate_state_compatibility\<close> returns true exactly when the
  monitors are captured and their number is the stored number, the workspaces are
  captured and the stored number is at most theirs, and the system state is captured;
  the stored numbers are the lengths of the stored fields. So a different monitor
  count gives false, fewer live workspaces give false, and equal monitor counts with
  enough workspaces give true provided that no capture raises.
\<close>

theorem validate_state_compatibility_iff:
  "validate_state_compatibility scale_default monitors_result workspaces_result clients_result
      system_result state
   = (\<exists>current_monitors current_workspaces current_system.
        capture_monitor_layouts scale_default monitors_result = Inr current_monitors
      \<and> py_len (monitor_layouts state) = Inr (length current_monitors)
      \<and> capture_workspace_states workspaces_result clients_result = Inr current_workspaces
      \<and> (\<exists>stored. py_len (workspace_states state) = Inr stored \<and> stored \<le> length current_workspaces)
      \<and> system_result = Inr current_system)"
  by (auto simp: validate_state_compatibility_def bind_err_def split: sum.splits)

theorem validate_state_compatibility_accepts:
  "validate_state_compatibility (JInt 1) example_monitors example_workspaces None
     (Inr (JDict [])) example_state"
  unfolding validate_state_compatibility_iff
  by (simp add: capture_monitor_layouts_def capture_workspace_states_def workspace_state_def
      bind_err_def py_or_def dict_get_def example_monitors_def example_workspaces_def
      example_state_def)

text \<open>
  Claim C7, as stated, fails: a legacy artifact can be any JSON document, and for one
  that is not an object, an array for instance, \<^verbatim>\<open>legacy_data.get\<close> raises an
  attribute error, which \<^verbatim>\<open>migrate_legacy_state\<close> logs and raises again. No snapshot
  is produced.
\<close>

theorem migrate_legacy_array_raises:
  "migrate_legacy_state (Inr (JList [])) ''2025-01-01T00:00:00'' 1735689600 = Inl AttributeError"
  by (simp add: migrate_legacy_state_def bind_err_def)

lemma legacy_monitor_digest:
  "md5_hexdigest (json_dumps (JList [JDict [(''id'', JInt 1), (''name'', JStr ''Legacy Monitor'')]]))
     = ''d65ac82349120da25f05183e5a65e82d''"
  by code_simp

text \<open>
  Claim C7, amended. For every legacy artifact that is a JSON object,
  \<^verbatim>\<open>migrate_legacy_state\<close> returns a snapshot whose eight content fields are the values
  under the legacy keys, with an empty list (an empty map for the system state) for an
  absent key, so that the monitor layouts have the length of the legacy monitors list;
  whose timestamp and session id come from the clock; and whose checksum map holds,
  for each of the eight components, the MD5 digest of the canonical serialisation of
  the migrated component, and under \<^verbatim>\<open>overall\<close> the digest of the serialisation of the
  ten migrated fields. The snapshot validates under these checksums, and a
  \<^verbatim>\<open>validation_checksums\<close> entry of the legacy artifact changes nothing. For an
  artifact that is not an object the migration raises an attribute error.
\<close>

theorem migrate_legacy_object:
  "(\<exists>q. migrate_legacy_state (Inr (JDict legacy)) now_iso now_unix = Inr q
     \<and> monitor_layouts q = dict_get legacy ''monitors'' (JList [])
     \<and> workspace_states q = dict_get legacy ''workspaces'' (JList [])
     \<and> window_states q = dict_get legacy ''windows'' (JList [])
     \<and> application_contexts q = dict_get legacy ''applications'' (JList [])
     \<and> terminal_sessions q = dict_get legacy ''terminals'' (JList [])
     \<and> browser_sessions q = dict_get legacy ''browsers'' (JList [])
     \<and> development_environments q = dict_get legacy ''environments'' (JList [])
     \<and> system_state q = dict_get legacy ''system'' (JDict [])
     \<and> timestamp q = JStr now_iso
     \<and> session_id q = JStr (''migrated_'' @ str_int now_unix)
     \<and> validation_checksums q = JDict
          [(''monitor_layouts'', JStr (md5_hexdigest (json_dumps (monitor_layouts q)))),
           (''workspace_states'', JStr (md5_hexdigest (json_dumps (workspace_states q)))),
           (''window_states'', JStr (md5_hexdigest (json_dumps (window_states q)))),
           (''application_contexts'', JStr (md5_hexdigest (json_dumps (application_contexts q)))),
           (''terminal_sessions'', JStr (md5_hexdigest (json_dumps (terminal_sessions q)))),
           (''browser_sessions'', JStr (md5_hexdigest (json_dumps (browser_sessions q)))),
           (''development_environments'',
              JStr (md5_hexdigest (json_dumps (development_environments q)))),
           (''system_state'', JStr (md5_hexdigest (json_dumps (system_state q)))),
           (''overall'', JStr (md5_hexdigest (json_dumps (JDict
              [(''timestamp'', timestamp q),
               (''session_id'', session_id q),
               (''monitor_layouts'', monitor_layouts q),
               (''workspace_states'', workspace_states q),
               (''window_states'', window_states q),
               (''application_contexts'', application_contexts q),
               (''terminal_sessions'', terminal_sessions q),
               (''browser_sessions'', browser_sessions q),
               (''development_environments'', development_environments q),
               (''system_state'', system_state q)]))))]
     \<and> validate_state_checksums q
     \<and> (\<forall>ms. map_of legacy ''monitors'' = Some (JList ms)
            \<longrightarrow> py_len (monitor_layouts q) = Inr (length ms))
     \<and> migrate_legacy_state (Inr (JDict ((''validation_checksums'', copied) # legacy)))
          now_iso now_unix = Inr q)
   \<and> (\<forall>v. \<not> is_object v \<longrightarrow> migrate_legacy_state (Inr v) now_iso now_unix = Inl AttributeError)"
proof -
  define q0 where "q0 = \<lparr>timestamp = JStr now_iso,
         session_id = JStr (''migrated_'' @ str_int now_unix),
         monitor_layouts = dict_get legacy ''monitors'' (JList []),
         workspace_states = dict_get legacy ''workspaces'' (JList []),
         window_states = dict_get legacy ''windows'' (JList []),
         application_contexts = dict_get legacy ''applications'' (JList []),
         terminal_sessions = dict_get legacy ''terminals'' (JList []),
         browser_sessions = dict_get legacy ''browsers'' (JList []),
         development_environments = dict_get legacy ''environments'' (JList []),
         system_state = dict_get legacy ''system'' (JDict []),
         validation_checksums = JDict []\<rparr>"
  define q where
    "q = q0\<lparr>validation_checksums := checksums_json (generate_validation_checksums q0)\<rparr>"
  have run: "migrate_legacy_state (Inr (JDict legacy)) now_iso now_unix = Inr q"
    unfolding q_def q0_def migrate_legacy_state_def bind_err_def dict_get_def
    by (simp add: Let_def)
  have run': "migrate_legacy_state (Inr (JDict ((''validation_checksums'', copied) # legacy)))
          now_iso now_unix = Inr q"
    unfolding q_def q0_def migrate_legacy_state_def bind_err_def dict_get_def
    by (simp add: Let_def)
  have fields: "monitor_layouts q = dict_get legacy ''monitors'' (JList [])"
    "workspace_states q = dict_get legacy ''workspaces'' (JList [])"
    "window_states q = dict_get legacy ''windows'' (JList [])"
    "application_contexts q = dict_get legacy ''applications'' (JList [])"
    "terminal_sessions q = dict_get legacy ''terminals'' (JList [])"
    "browser_sessions q = dict_get legacy ''browsers'' (JList [])"
    "development_environments q = dict_get legacy ''environments'' (JList [])"
    "system_state q = dict_get legacy ''system'' (JDict [])"
    "timestamp q = JStr now_iso"
    "session_id q = JStr (''migrated_'' @ str_int now_unix)"
    by (simp_all add: q_def q0_def)
  have valid: "validate_state_checksums q"
    unfolding q_def by (rule validate_stored_subset) simp_all
  have gen: "validation_checksums q = JDict
          [(''monitor_layouts'', JStr (md5_hexdigest (json_dumps (monitor_layouts q)))),
           (''workspace_states'', JStr (md5_hexdigest (json_dumps (workspace_states q)))),
           (''window_states'', JStr (md5_hexdigest (json_dumps (window_states q)))),
           (''application_contexts'', JStr (md5_hexdigest (json_dumps (application_contexts q)))),
           (''terminal_sessions'', JStr (md5_hexdigest (json_dumps (terminal_sessions q)))),
           (''browser_sessions'', JStr (md5_hexdigest (json_dumps (browser_sessions q)))),
           (''development_environments'',
              JStr (md5_hexdigest (json_dumps (development_environments q)))),
           (''system_state'', JStr (md5_hexdigest (json_dumps (system_state q)))),
           (''overall'', JStr (md5_hexdigest (json_dumps (JDict
              [(''timestamp'', timestamp q),
               (''session_id'', session_id q),
               (''monitor_layouts'', monitor_layouts q),
               (''workspace_states'', workspace_states q),
               (''window_states'', window_states q),
               (''application_contexts'', application_contexts q),
               (''terminal_sessions'', terminal_sessions q),
               (''browser_sessions'', browser_sessions q),
               (''development_environments'', development_environments q),
               (''system_state'', system_state q)]))))]"
    unfolding q_def checksums_json_def generate_validation_checksums_def components_def
      asdict_def dict_pop_def generate_state_checksum_def
    by simp
  have len: "py_len (monitor_layouts q) = Inr (length ms)"
    if "map_of legacy ''monitors'' = Some (JList ms)" for ms
    using that by (simp add: fields dict_get_def)
  have other: "migrate_legacy_state (Inr v) now_iso now_unix = Inl AttributeError"
    if "\<not> is_object v" for v
    using that by (cases v) (simp_all add: is_object_def migrate_legacy_state_def bind_err_def)
  from run run' fields valid gen len have "\<exists>q. migrate_legacy_state (Inr (JDict legacy)) now_iso now_unix = Inr q
     \<and> monitor_layouts q = dict_get legacy ''monitors'' (JList [])
     \<and> workspace_states q = dict_get legacy ''workspaces'' (JList [])
     \<and> window_states q = dict_get legacy ''windows'' (JList [])
     \<and> application_contexts q = dict_get legacy ''applications'' (JList [])
     \<and> terminal_sessions q = dict_get legacy ''terminals'' (JList [])
     \<and> browser_sessions q = dict_get legacy ''browsers'' (JList [])
     \<and> development_environments q = dict_get legacy ''environments'' (JList [])
     \<and> system_state q = dict_get legacy ''system'' (JDict [])
     \<and> timestamp q = JStr now_iso
     \<and> session_id q = JStr (''migrated_'' @ str_int now_unix)
     \<and> validation_checksums q = JDict
          [(''monitor_layouts'', JStr (md5_hexdigest (json_dumps (monitor_layouts q)))),
           (''workspace_states'', JStr (md5_hexdigest (json_dumps (workspace_states q)))),
           (''window_states'', JStr (md5_hexdigest (json_dumps (window_states q)))),
           (''application_contexts'', JStr (md5_hexdigest (json_dumps (application_contexts q)))),
           (''terminal_sessions'', JStr (md5_hexdigest (json_dumps (terminal_sessions q)))),
           (''browser_sessions'', JStr (md5_hexdigest (json_dumps (browser_sessions q)))),
           (''development_environments'',
              JStr (md5_hexdigest (json_dumps (development_environments q)))),
           (''system_state'', JStr (md5_hexdigest (json_dumps (system_state q)))),
           (''overall'', JStr (md5_hexdigest (json_dumps (JDict
              [(''timestamp'', timestamp q),
               (''session_id'', session_id q),
               (''monitor_layouts'', monitor_layouts q),
               (''workspace_states'', workspace_states q),
               (''window_states'', window_states q),
               (''application_contexts'', application_contexts q),
               (''terminal_sessions'', terminal_sessions q),
               (''browser_sessions'', browser_sessions q),
               (''development_environments'', development_environments q),
               (''system_state'', system_state q)]))))]
     \<and> validate_state_checksums q
     \<and> (\<forall>ms. map_of legacy ''monitors'' = Some (JList ms)
            \<longrightarrow> py_len (monitor_layouts q) = Inr (length ms))
     \<and> migrate_legacy_state (Inr (JDict ((''validation_checksums'', copied) # legacy)))
          now_iso now_unix = Inr q"
    by (intro exI [of _ q]) blast
  with other show ?thesis by blast
qed

theorem migrate_legacy_object_witness:
  "map_of example_legacy ''monitors''
     = Some (JList [JDict [(''id'', JInt 1), (''name'', JStr ''Legacy Monitor'')]])
   \<and> \<not> is_object (JList [])
   \<and> (\<exists>q items. migrate_legacy_state (Inr (JDict example_legacy)) ''2025-01-01T00:00:00''
               1735689600 = Inr q
          \<and> py_len (monitor_layouts q) = Inr 1
          \<and> window_states q = JList []
          \<and> session_id q = JStr ''migrated_1735689600''
          \<and> validation_checksums q = JDict items
          \<and> map_of items ''monitor_layouts'' = Some (JStr ''d65ac82349120da25f05183e5a65e82d'')
          \<and> validate_state_checksums q)
   \<and> migrate_legacy_state (Inr (JList [])) ''2025-01-01T00:00:00'' 1735689600
        = Inl AttributeError"
proof -
  have m: "map_of example_legacy ''monitors''
     = Some (JList [JDict [(''id'', JInt 1), (''name'', JStr ''Legacy Monitor'')]])"
    by (simp add: example_legacy_def)
  have o: "\<not> is_object (JList [])"
    by (simp add: is_object_def)
  have n: "str_int 1735689600 = ''1735689600''"
    by (simp add: str_int_def str_nat.simps hexdigit_def)
  from migrate_legacy_object [of example_legacy "''2025-01-01T00:00:00''" 1735689600]
  obtain q where q: "migrate_legacy_state (Inr (JDict example_legacy)) ''2025-01-01T00:00:00''
        1735689600 = Inr q"
    and mon: "monitor_layouts q = dict_get example_legacy ''monitors'' (JList [])"
    and win: "window_states q = dict_get example_legacy ''windows'' (JList [])"
    and sid: "session_id q = JStr (''migrated_'' @ str_int 1735689600)"
    and cs: "validation_checksums q = JDict
          [(''monitor_layouts'', JStr (md5_hexdigest (json_dumps (monitor_layouts q)))),
           (''workspace_states'', JStr (md5_hexdigest (json_dumps (workspace_states q)))),
           (''window_states'', JStr (md5_hexdigest (json_dumps (window_states q)))),
           (''application_contexts'', JStr (md5_hexdigest (json_dumps (application_contexts q)))),
           (''terminal_sessions'', JStr (md5_hexdigest (json_dumps (terminal_sessions q)))),
           (''browser_sessions'', JStr (md5_hexdigest (json_dumps (browser_sessions q)))),
           (''development_environments'',
              JStr (md5_hexdigest (json_dumps (development_environments q)))),
           (''system_state'', JStr (md5_hexdigest (json_dumps (system_state q)))),
           (''overall'', JStr (md5_hexdigest (json_dumps (JDict
              [(''timestamp'', timestamp q),
               (''session_id'', session_id q),
               (''monitor_layouts'', monitor_layouts q),
               (''workspace_states'', workspace_states q),
               (''window_states'', window_states q),
               (''application_contexts'', application_contexts q),
               (''terminal_sessions'', terminal_sessions q),
               (''browser_sessions'', browser_sessions q),
               (''development_environments'', development_environments q),
               (''system_state'', system_state q)]))))]"
    and valid: "validate_state_checksums q"
    and arr: "\<forall>v. \<not> is_object v \<longrightarrow>
        migrate_legacy_state (Inr v) ''2025-01-01T00:00:00'' 1735689600 = Inl AttributeError"
    by blast
  have mon': "monitor_layouts q = JList [JDict [(''id'', JInt 1), (''name'', JStr ''Legacy Monitor'')]]"
    using mon by (simp add: dict_get_def example_legacy_def)
  have d: "map_of [(''monitor_layouts'', JStr (md5_hexdigest (json_dumps (monitor_layouts q)))),
           (''workspace_states'', JStr (md5_hexdigest (json_dumps (workspace_states q)))),
           (''window_states'', JStr (md5_hexdigest (json_dumps (window_states q)))),
           (''application_contexts'', JStr (md5_hexdigest (json_dumps (application_contexts q)))),
           (''terminal_sessions'', JStr (md5_hexdigest (json_dumps (terminal_sessions q)))),
           (''browser_sessions'', JStr (md5_hexdigest (json_dumps (browser_sessions q)))),
           (''development_environments'',
              JStr (md5_hexdigest (json_dumps (development_environments q)))),
           (''system_state'', JStr (md5_hexdigest (json_dumps (system_state q)))),
           (''overall'', JStr (md5_hexdigest (json_dumps (JDict
              [(''timestamp'', timestamp q),
               (''session_id'', session_id q),
               (''monitor_layouts'', monitor_layouts q),
               (''workspace_states'', workspace_states q),
               (''window_states'', window_states q),
               (''application_contexts'', application_contexts q),
               (''terminal_sessions'', terminal_sessions q),
               (''browser_sessions'', browser_sessions q),
               (''development_environments'', development_environments q),
               (''system_state'', system_state q)]))))] ''monitor_layouts''
      = Some (JStr ''d65ac82349120da25f05183e5a65e82d'')"
    unfolding mon' legacy_monitor_digest by simp
  have w: "window_states q = JList []"
    using win by (simp add: dict_get_def example_legacy_def)
  have l: "py_len (monitor_layouts q) = Inr 1"
    unfolding mon' by simp
  have s: "session_id q = JStr ''migrated_1735689600''"
    using sid n by simp
  from arr o have a: "migrate_legacy_state (Inr (JList [])) ''2025-01-01T00:00:00'' 1735689600
        = Inl AttributeError"
    by blast
  from q l w s cs d valid have "\<exists>q items. migrate_legacy_state (Inr (JDict example_legacy)) ''2025-01-01T00:00:00''
               1735689600 = Inr q
          \<and> py_len (monitor_layouts q) = Inr 1
          \<and> window_states q = JList []
          \<and> session_id q = JStr ''migrated_1735689600''
          \<and> validation_checksums q = JDict items
          \<and> map_of items ''monitor_layouts'' = Some (JStr ''d65ac82349120da25f05183e5a65e82d'')
          \<and> validate_state_checksums q"
    by blast
  with m o a show ?thesis by blast
qed

section \<open>Properties of the detection of development environments\<close>

text \<open>
  Claim C9, as stated, fails: the entry for \<^verbatim>\<open>NODE_ENV\<close> has the keys \<^verbatim>\<open>type\<close>,
  \<^verbatim>\<open>environment\<close> and \<^verbatim>\<open>active\<close>, and no \<^verbatim>\<open>name\<close>.
\<close>

theorem node_entry_has_no_name:
  "detect_development_environments [''NODE_ENV'' \<mapsto> ''development'']
     = [JDict [(''type'', JStr ''node''), (''environment'', JStr ''development''),
               (''active'', JBool True)]]
   \<and> map_of [(''type'', JStr ''node''), (''environment'', JStr ''development''),
              (''active'', JBool True)] ''name'' = None"
  by (simp add: detect_development_environments_def)

text \<open>
  Claim C9, amended. Every entry that the detector returns is an object with a
  \<^verbatim>\<open>type\<close> among conda, venv, pyenv and node and with \<^verbatim>\<open>active\<close> true; the conda, venv
  and pyenv entries have a \<^verbatim>\<open>name\<close>, the node entry has an \<^verbatim>\<open>environment\<close> in its
  place, and \<^verbatim>\<open>path\<close> is present for venv only.
\<close>

theorem detect_entry_shape:
  assumes "e \<in> set (detect_development_environments env_vars)"
  shows "\<exists>items ty. e = JDict items
           \<and> map_of items ''type'' = Some (JStr ty)
           \<and> ty \<in> {''conda'', ''venv'', ''pyenv'', ''node''}
           \<and> map_of items ''active'' = Some (JBool True)
           \<and> (''name'' \<in> fst ` set items) = (ty \<noteq> ''node'')
           \<and> (''environment'' \<in> fst ` set items) = (ty = ''node'')
           \<and> (''path'' \<in> fst ` set items) = (ty = ''venv'')"
  using assms
  by (auto simp: detect_development_environments_def split: option.splits)

theorem detect_entry_shape_witness:
  "JDict [(''type'', JStr ''conda''), (''name'', JStr ''base''), (''active'', JBool True)]
     \<in> set (detect_development_environments [''CONDA_DEFAULT_ENV'' \<mapsto> ''base''])
   \<and> (\<exists>items ty. JDict [(''type'', JStr ''conda''), (''name'', JStr ''base''), (''active'', JBool True)] = JDict items
           \<and> map_of items ''type'' = Some (JStr ty)
           \<and> ty \<in> {''conda'', ''venv'', ''pyenv'', ''node''}
           \<and> map_of items ''active'' = Some (JBool True)
           \<and> (''name'' \<in> fst ` set items) = (ty \<noteq> ''node'')
           \<and> (''environment'' \<in> fst ` set items) = (ty = ''node'')
           \<and> (''path'' \<in> fst ` set items) = (ty = ''venv''))"
proof -
  have m: "JDict [(''type'', JStr ''conda''), (''name'', JStr ''base''), (''active'', JBool True)]
     \<in> set (detect_development_environments [''CONDA_DEFAULT_ENV'' \<mapsto> ''base''])"
    by (simp add: detect_development_environments_def)
  from detect_entry_shape [OF m] m show ?thesis by blast
qed

section \<open>Properties of the backups\<close>

lemma write_file_fresh:
  "name \<notin> fst ` set dir \<Longrightarrow> write_file dir name now = dir @ [(name, now)]"
  by (induction dir) auto

lemma startswith_backup_name: "startswith (backup_name p now) ''backup_''"
  by (simp add: startswith_def backup_name_def)

lemma filter_names_drop:
  assumes names: "distinct (map fst dir)" and perm: "mset srt = mset dir"
  shows "filter (\<lambda>f. fst f \<notin> fst ` set (take m srt)) dir
           = filter (\<lambda>f. f \<in> set (drop m srt)) dir"
proof (rule filter_cong [OF refl])
  fix f assume f: "f \<in> set dir"
  have ds: "distinct (map fst srt)"
    using names perm by (metis mset_eq_imp_distinct_iff mset_map)
  then have d: "distinct srt" by (simp add: distinct_map)
  have inj: "inj_on fst (set srt)"
    using ds by (simp add: distinct_map)
  have fs: "f \<in> set srt"
    using f perm by (metis mset_eq_setD)
  have "fst f \<in> fst ` set (take m srt) \<longleftrightarrow> f \<in> set (take m srt)"
  proof
    assume "fst f \<in> fst ` set (take m srt)"
    then obtain g where g: "g \<in> set (take m srt)" and e: "fst f = fst g" by auto
    from g have "g \<in> set srt" by (rule in_set_takeD)
    with inj fs e have "f = g" by (auto dest: inj_onD)
    with g show "f \<in> set (take m srt)" by simp
  qed auto
  moreover have "f \<in> set (take m srt) \<longleftrightarrow> f \<notin> set (drop m srt)"
  proof -
    have "set (take m srt) \<inter> set (drop m srt) = {}"
      using d by (metis append_take_drop_id distinct_append)
    moreover have "set (take m srt) \<union> set (drop m srt) = set srt"
      by (metis append_take_drop_id set_append)
    ultimately show ?thesis using fs by auto
  qed
  ultimately show "(fst f \<notin> fst ` set (take m srt)) = (f \<in> set (drop m srt))"
    by simp
qed

lemma cleanup_keeps_newest:
  assumes listing: "mset (listdir dir) = mset dir"
    and backups: "\<forall>f \<in> set dir. startswith (fst f) ''backup_''"
    and names: "distinct (map fst dir)"
    and times: "distinct (map snd dir)"
  shows "cleanup_old_backups listdir (int K) dir
           = filter (\<lambda>f. f \<in> set (drop (length dir - K) (sort_key snd dir))) dir"
proof -
  have "set (listdir dir) = set dir"
    using listing by (rule mset_eq_setD)
  then have f: "filter (\<lambda>f. startswith (fst f) ''backup_'') (listdir dir) = listdir dir"
    using backups by (simp add: filter_id_conv)
  have inj: "inj_on snd (set (listdir dir))"
    using times \<open>set (listdir dir) = set dir\<close> by (simp add: distinct_map)
  have s: "sort_key snd (listdir dir) = sort_key snd dir"
    by (rule sort_key_inj_key_eq [OF _ inj]) (simp_all add: listing)
  have p: "mset (sort_key snd dir) = mset dir" by simp
  show ?thesis
  proof (cases "K < length dir")
    case True
    then show ?thesis
      unfolding cleanup_old_backups_def f s Let_def
      using filter_names_drop [OF names p, of "length dir - K"]
      by (simp add: nat_diff_distrib')
  next
    case False
    then have "filter (\<lambda>f. f \<in> set (drop (length dir - K) (sort_key snd dir))) dir = dir"
      by (simp add: filter_id_conv)
    with False show ?thesis
      unfolding cleanup_old_backups_def f s Let_def by simp
  qed
qed

lemma filter_in_drop:
  "distinct xs \<Longrightarrow> filter (\<lambda>f. f \<in> set (drop m xs)) xs = drop m xs"
proof (induction xs arbitrary: m)
  case Nil
  then show ?case by simp
next
  case (Cons x xs)
  show ?case
  proof (cases m)
    case 0
    then show ?thesis by (simp add: filter_id_conv)
  next
    case (Suc j)
    from Cons.prems have "x \<notin> set (drop j xs)" by (auto dest: in_set_dropD)
    with Cons.IH [of j] Cons.prems Suc show ?thesis by simp
  qed
qed

lemma cleanup_sorted:
  assumes listing: "mset (listdir dir) = mset dir"
    and backups: "\<forall>f \<in> set dir. startswith (fst f) ''backup_''"
    and incr: "sorted_wrt (<) (map snd dir)"
    and names: "distinct (map fst dir)"
  shows "cleanup_old_backups listdir (int K) dir = drop (length dir - K) dir"
proof -
  have times: "distinct (map snd dir)"
    using incr by (simp add: strict_sorted_iff)
  have s: "sort_key snd dir = dir"
    using incr by (simp add: strict_sorted_iff sort_key_id_if_sorted)
  have d: "distinct dir"
    using names by (simp add: distinct_map)
  show ?thesis
    unfolding cleanup_keeps_newest [of listdir dir, OF listing backups names times] s
    using d by (rule filter_in_drop)
qed

lemma backup_name_eval:
  "backup_name ''/state/s.json'' 1000000000 = ''backup_s.json_1''"
  "backup_name ''/state/s.json'' 1200000000 = ''backup_s.json_1''"
  "backup_name ''/state/s.json'' 1400000000 = ''backup_s.json_1''"
  "backup_name ''/state/s.json'' 2000000000 = ''backup_s.json_2''"
  "backup_name ''/state/s.json'' 3000000000 = ''backup_s.json_3''"
  by (simp_all add: backup_name_def basename_def unix_seconds_def str_int_def str_nat.simps
      hexdigit_def)

text \<open>
  Claim C3, as stated, fails: the name of a backup is made of the base name of the state
  file and the whole seconds of the clock, so saves of one state file within one second
  write the same backup file. After three such saves with \<^verbatim>\<open>max_backups = 2\<close> there
  is one backup, not two.
\<close>

theorem backups_same_second_overwritten:
  "save_all (\<lambda>dir. dir) 2 []
     [(''/state/s.json'', 1000000000), (''/state/s.json'', 1200000000),
      (''/state/s.json'', 1400000000)]
     = [(''backup_s.json_1'', 1400000000)]"
  by (simp add: save_all_def create_backup_def cleanup_old_backups_def startswith_def
      backup_name_eval)

text \<open>
  Claim C3, amended. Let \<^verbatim>\<open>os.listdir\<close> report the entries of a directory in any order.
  Starting from an empty backup directory, for saves at strictly increasing times whose
  backup names are pairwise distinct (no two saves of the same base name within one
  second), after the saves with \<^verbatim>\<open>max_backups = K\<close> the directory holds the backups of
  the last \<^verbatim>\<open>K\<close> saves and nothing else; so with more than \<^verbatim>\<open>K\<close> saves exactly \<^verbatim>\<open>K\<close>
  backups remain, the most recently created ones. And on every directory of backups
  with pairwise distinct names and creation times, cleanup keeps exactly the last
  \<^verbatim>\<open>K\<close> entries of the directory sorted by creation time: it removes the oldest files
  in excess of the limit, and only those.
\<close>

theorem save_all_retention:
  assumes listing: "\<And>d. mset (listdir d) = mset d"
    and times: "sorted_wrt (<) (map snd saves)"
    and names: "distinct (map (\<lambda>s. backup_name (fst s) (snd s)) saves)"
  shows "save_all listdir (int K) [] saves
           = drop (length saves - K) (map (\<lambda>s. (backup_name (fst s) (snd s), snd s)) saves)
         \<and> (K < length saves \<longrightarrow> length (save_all listdir (int K) [] saves) = K)
         \<and> (\<forall>dir. (\<forall>f \<in> set dir. startswith (fst f) ''backup_'')
                   \<and> distinct (map fst dir) \<and> distinct (map snd dir)
               \<longrightarrow> cleanup_old_backups listdir (int K) dir
                     = filter (\<lambda>f. f \<in> set (drop (length dir - K) (sort_key snd dir))) dir)"
proof -
  let ?e = "\<lambda>s. (backup_name (fst s) (snd s), snd s)"
  have main: "save_all listdir (int K) [] saves = drop (length saves - K) (map ?e saves)"
    using times names
  proof (induction saves rule: rev_induct)
    case Nil
    then show ?case by (simp add: save_all_def)
  next
    case (snoc s saves)
    from snoc.prems have t: "sorted_wrt (<) (map snd saves)"
      and d: "distinct (map (\<lambda>s. backup_name (fst s) (snd s)) saves)"
      and fresh: "backup_name (fst s) (snd s) \<notin> (\<lambda>s. backup_name (fst s) (snd s)) ` set saves"
      by (auto simp: sorted_wrt_append)
    let ?d = "drop (length saves - K) (map ?e saves)"
    have ih: "save_all listdir (int K) [] saves = ?d"
      by (rule snoc.IH [OF t d])
    have sub: "set ?d \<subseteq> ?e ` set saves"
      using set_drop_subset [of "length saves - K" "map ?e saves"] by simp
    have "backup_name (fst s) (snd s) \<notin> fst ` set ?d"
      using fresh sub by force
    then have w: "write_file ?d (backup_name (fst s) (snd s)) (snd s) = ?d @ [?e s]"
      by (simp add: write_file_fresh)
    let ?all = "map ?e (saves @ [s])"
    have sorted_all: "sorted_wrt (<) (map snd ?all)"
      using snoc.prems(1) by (simp add: comp_def del: map_append)
    have distinct_all: "distinct (map fst ?all)"
      using snoc.prems(2) by (simp add: comp_def del: map_append)
    have backups_all: "\<forall>f \<in> set ?all. startswith (fst f) ''backup_''"
      by (auto simp: startswith_backup_name)
    have eq: "?d @ [?e s] = drop (length saves - K) ?all"
      by simp
    have b: "\<forall>f \<in> set (?d @ [?e s]). startswith (fst f) ''backup_''"
      unfolding eq using backups_all by (meson in_set_dropD)
    have so: "sorted_wrt (<) (map snd (?d @ [?e s]))"
      unfolding eq drop_map [symmetric] using sorted_all by (rule sorted_wrt_drop)
    have di: "distinct (map fst (?d @ [?e s]))"
      unfolding eq drop_map [symmetric] using distinct_all by (rule distinct_drop)
    have "save_all listdir (int K) [] (saves @ [s])
            = cleanup_old_backups listdir (int K) (?d @ [?e s])"
      using ih w by (simp add: save_all_def create_backup_def)
    also have "\<dots> = drop (length (?d @ [?e s]) - K) (?d @ [?e s])"
      by (rule cleanup_sorted [of listdir "?d @ [?e s]", OF listing b so di])
    also have "\<dots> = drop (length (saves @ [s]) - K) ?all"
    proof -
      have "Suc (length saves) - (length saves - K + K) + (length saves - K)
              = Suc (length saves) - K"
        by arith
      then show ?thesis
        unfolding eq by (simp del: map_append)
    qed
    finally show ?case .
  qed
  have cleanup: "cleanup_old_backups listdir (int K) dir
        = filter (\<lambda>f. f \<in> set (drop (length dir - K) (sort_key snd dir))) dir"
    if "(\<forall>f \<in> set dir. startswith (fst f) ''backup_'')
          \<and> distinct (map fst dir) \<and> distinct (map snd dir)" for dir
    using that by (intro cleanup_keeps_newest [of listdir dir, OF listing]) simp_all
  from main cleanup show ?thesis by simp
qed

theorem save_all_retention_witness:
  "(\<forall>d :: directory. mset (rev d) = mset d)
   \<and> sorted_wrt (<) (map snd [(''/state/s.json'', 1000000000 :: nat),
        (''/state/s.json'', 2000000000), (''/state/s.json'', 3000000000)])
   \<and> distinct (map (\<lambda>s. backup_name (fst s) (snd s)) [(''/state/s.json'', 1000000000),
        (''/state/s.json'', 2000000000), (''/state/s.json'', 3000000000)])
   \<and> save_all rev 2 [] [(''/state/s.json'', 1000000000), (''/state/s.json'', 2000000000),
        (''/state/s.json'', 3000000000)]
     = [(''backup_s.json_2'', 2000000000), (''backup_s.json_3'', 3000000000)]
   \<and> cleanup_old_backups rev 2
        [(''backup_c'', 30), (''backup_a'', 10), (''backup_d'', 40), (''backup_b'', 20)]
     = [(''backup_c'', 30), (''backup_d'', 40)]"
proof -
  let ?saves = "[(''/state/s.json'', 1000000000 :: nat), (''/state/s.json'', 2000000000),
                  (''/state/s.json'', 3000000000)]"
  let ?dir = "[(''backup_c'', 30 :: nat), (''backup_a'', 10), (''backup_d'', 40), (''backup_b'', 20)]"
  have l: "\<And>d :: directory. mset (rev d) = mset d" by simp
  have t: "sorted_wrt (<) (map snd ?saves)" by simp
  have n: "distinct (map (\<lambda>s. backup_name (fst s) (snd s)) ?saves)"
    by (simp add: backup_name_eval)
  have r: "drop (length ?saves - 2) (map (\<lambda>s. (backup_name (fst s) (snd s), snd s)) ?saves)
            = [(''backup_s.json_2'', 2000000000), (''backup_s.json_3'', 3000000000)]"
    by (simp add: backup_name_eval)
  have h: "(\<forall>f \<in> set ?dir. startswith (fst f) ''backup_'')
             \<and> distinct (map fst ?dir) \<and> distinct (map snd ?dir)"
    by (simp add: startswith_def)
  have k: "filter (\<lambda>f. f \<in> set (drop (length ?dir - 2) (sort_key snd ?dir))) ?dir
             = [(''backup_c'', 30), (''backup_d'', 40)]"
    by simp
  from save_all_retention [of rev, OF l t n, of 2] have
    "save_all rev 2 [] ?saves
       = drop (length ?saves - 2) (map (\<lambda>s. (backup_name (fst s) (snd s), snd s)) ?saves)"
    and "(\<forall>f \<in> set ?dir. startswith (fst f) ''backup_'')
             \<and> distinct (map fst ?dir) \<and> distinct (map snd ?dir)
          \<longrightarrow> cleanup_old_backups rev 2 ?dir
             = filter (\<lambda>f. f \<in> set (drop (length ?dir - 2) (sort_key snd ?dir))) ?dir"
    by simp_all
  with l t n r h k show ?thesis by simp
qed

section \<open>Properties of the optimisation pass\<close>

lemma basename_eval:
  "basename ''/home/u/src/a.py'' = ''a.py''"
  "basename ''/home/u/b.txt'' = ''b.txt''"
  by (simp_all add: basename_def)

lemma optimize_example:
  "optimize_state_capture True example_heap example_ref
     = Inr (example_heap[1 := ODict [(''open_files'', VRef 14)]]
              @ [OList [VRef 13],
                 ODict [(''class'', VStr ''code''), (''session_data'', VRef 1)],
                 OList [VStr ''a.py'', VStr ''b.txt''],
                 OList [], OList []],
            example_ref\<lparr>application_contexts_ref := VRef 12,
                         terminal_sessions_ref := VRef 15,
                         browser_sessions_ref := VRef 16\<rparr>)"
  by (simp add: optimize_state_capture_def optimize_application_contexts_def
      optimize_terminal_sessions_def optimize_browser_sessions_def optimize_list_def
      optimize_context_def alloc_def iter_val_def bind_err_def copy_val_def key_in_def
      subscript_def dict_items_def list_elems_def assign_def endswith_def basename_eval
      example_heap_def example_ref_def)

text \<open>
  Claim C8 fails in the code. \<^verbatim>\<open>context.copy()\<close> copies the dictionary of the context
  but not the \<^verbatim>\<open>session_data\<close> dictionary inside it, which the copy shares with the
  input; the assignment \<^verbatim>\<open>session_data[key] = ...\<close> therefore changes the input. For a
  snapshot with one application context whose session data has
  \<^verbatim>\<open>open_files = ["/home/u/src/a.py", "/home/u/b.txt"]\<close>, the application contexts of
  the input read \<^verbatim>\<open>["a.py", "b.txt"]\<close> after the call.
\<close>

theorem optimize_changes_input_session_data:
  "heap_read 4 example_heap (application_contexts_ref example_ref)
     = Some (JList [JDict [(''class'', JStr ''code''),
          (''session_data'', JDict [(''open_files'',
               JList [JStr ''/home/u/src/a.py'', JStr ''/home/u/b.txt''])])]])
   \<and> map_sum id (\<lambda>r. heap_read 4 (fst r) (application_contexts_ref example_ref))
         (optimize_state_capture True example_heap example_ref)
     = Inr (Some (JList [JDict [(''class'', JStr ''code''),
          (''session_data'', JDict [(''open_files'',
               JList [JStr ''a.py'', JStr ''b.txt''])])]]))"
  unfolding optimize_example
  by (simp add: example_heap_def example_ref_def eval_nat_numeral)

end
